theory Spec2Isabelle
  imports Main "HOL-Library.Word"
begin

chapter \<open>The ERC20 deployment command (cmd/erc20/main.go)\<close>

text \<open>
  A shallow embedding of \<^verbatim>\<open>src/cmd/erc20/main.go\<close>: the two helpers
  \<^verbatim>\<open>parseSupply\<close> and \<^verbatim>\<open>createTransactor\<close>, the prompt for the private key and
  \<^verbatim>\<open>main\<close> itself. Go strings are byte strings (\<^typ>\<open>string\<close>), \<^verbatim>\<open>*big.Int\<close> is
  \<^typ>\<open>int\<close>, \<^verbatim>\<open>uint8\<close> and \<^verbatim>\<open>uint64\<close> are words, every \<^verbatim>\<open>error\<close> return is the left
  summand of a sum type, and \<^verbatim>\<open>log.Fatal\<close> ends the run with the outcome \<open>Exited\<close>.
\<close>

section \<open>Errors\<close>

text \<open>
  The errors the program builds with \<^verbatim>\<open>fmt.Errorf\<close>, one constructor per format string,
  and \<open>LibError\<close> for an error value handed back by a call into a library or the network.
\<close>

datatype error =
    LibError string
  | InvalidPrivateKey error
  | ErrorCastingPublicKey
  | FailedToGetNonce error
  | FailedToGetChainID error
  | FailedToCreateTransactor error
  | FailedToSuggestGasPrice error
  | InvalidSupplyValue string

section \<open>math/big: \<^verbatim>\<open>(*Int).SetString\<close> and \<^verbatim>\<open>(*Int).Exp\<close>\<close>

text \<open>
  \<^verbatim>\<open>parseSupply\<close> calls \<^verbatim>\<open>value.SetString(supply, 10)\<close> of Go's standard library. The
  library reads the string byte by byte: \<^verbatim>\<open>scanSign\<close> takes one optional \<^verbatim>\<open>+\<close> or
  \<^verbatim>\<open>-\<close>, \<^verbatim>\<open>nat.scan\<close> takes digits while their value is below the base and stops at
  the first byte that is no digit, and \<^verbatim>\<open>setFromScanner\<close> fails unless the whole string
  was consumed. Only an explicit base between 2 and 36 is modelled (the program passes
  10); with such a base the library reads neither a prefix nor \<^verbatim>\<open>_\<close> separators. The
  library collects the digits in machine words before adding them to the result; the
  model adds them one at a time.
\<close>

definition digitVal :: "char \<Rightarrow> int" where
  "digitVal ch =
     (let c = (of_char ch :: int) in
      if 48 \<le> c \<and> c \<le> 57 then c - 48
      else if 97 \<le> c \<and> c \<le> 122 then c - 97 + 10
      else if 65 \<le> c \<and> c \<le> 90 then c - 65 + 10
      else 63)"

text \<open>
  The loop of \<^verbatim>\<open>nat.scan\<close>: the value so far, the number of digits read, the bytes left
  unread.
\<close>

fun scanDigits :: "int \<Rightarrow> int \<Rightarrow> nat \<Rightarrow> string \<Rightarrow> int \<times> nat \<times> string" where
  "scanDigits b z count [] = (z, count, [])"
| "scanDigits b z count (ch # r) =
     (if b \<le> digitVal ch then (z, count, ch # r)
      else scanDigits b (z * b + digitVal ch) (count + 1) r)"

definition nat_scan :: "int \<Rightarrow> string \<Rightarrow> (int \<times> string) option" where
  "nat_scan b r =
     (case scanDigits b 0 0 r of
        (z, count, rest) \<Rightarrow> if count = 0 then None else Some (z, rest))"

definition scanSign :: "string \<Rightarrow> (bool \<times> string) option" where
  "scanSign r =
     (case r of
        [] \<Rightarrow> None
      | ch # rest \<Rightarrow>
          if ch = CHR ''-'' then Some (True, rest)
          else if ch = CHR ''+'' then Some (False, rest)
          else Some (False, ch # rest))"

text \<open>\<^verbatim>\<open>(*Int).scan\<close>: sign, then magnitude; zero has no sign.\<close>

definition Int_scan :: "int \<Rightarrow> string \<Rightarrow> (int \<times> string) option" where
  "Int_scan b r =
     (case scanSign r of
        None \<Rightarrow> None
      | Some (neg, r1) \<Rightarrow>
          (case nat_scan b r1 of
             None \<Rightarrow> None
           | Some (mag, rest) \<Rightarrow>
               Some (if 0 < mag \<and> neg then - mag else mag, rest)))"

text \<open>\<^verbatim>\<open>SetString\<close>: \<open>None\<close> is the result \<^verbatim>\<open>(nil, false)\<close>.\<close>

definition SetString :: "string \<Rightarrow> int \<Rightarrow> int option" where
  "SetString s b =
     (case Int_scan b s of
        None \<Rightarrow> None
      | Some (z, rest) \<Rightarrow> if rest = [] then Some z else None)"

text \<open>\<^verbatim>\<open>Exp(x, y, nil)\<close>: \<open>x\<close> to the power \<open>y\<close>, and 1 when \<open>y \<le> 0\<close>.\<close>

definition Exp :: "int \<Rightarrow> int \<Rightarrow> int" where
  "Exp x y = (if y \<le> 0 then 1 else x ^ nat y)"

section \<open>parseSupply\<close>

text \<open>
  \<^verbatim>\<open>
  func parseSupply(supply string, decimals uint8) (*big.Int, error) {
      value := new(big.Int)
      _, ok := value.SetString(supply, 10)
      if !ok {
          return nil, fmt.Errorf("invalid supply value: %s", supply)
      }
      multiplier := new(big.Int).Exp(big.NewInt(10), big.NewInt(int64(decimals)), nil)
      return value.Mul(value, multiplier), nil
  }
  \<close>
\<close>

definition parseSupply :: "string \<Rightarrow> 8 word \<Rightarrow> error + int" where
  "parseSupply supply decimals =
     (case SetString supply 10 of
        None \<Rightarrow> Inl (InvalidSupplyValue supply)
      | Some v \<Rightarrow>
          (let multiplier = Exp 10 (uint decimals)
           in Inr (v * multiplier)))"

section \<open>float64\<close>

text \<open>
  The flag \<^verbatim>\<open>-gasprice\<close> is a \<^verbatim>\<open>float64\<close>, and \<^verbatim>\<open>createTransactor\<close> compares it with 0,
  multiplies it by \<^verbatim>\<open>1e9\<close> and converts the product to \<^verbatim>\<open>int64\<close>. A finite double is
  \<open>Finite m e\<close>, the number \<open>m * 2 ^ e\<close>, kept in lowest terms (\<open>m\<close> odd, or \<open>m = 0\<close> and
  \<open>e = 0\<close>) so that equal numbers are equal terms; the sign of zero, which none of the
  three operations can observe, is not kept.
\<close>

datatype float64 = Finite int int | PosInf | NegInf | NaN

text \<open>The number of bits of a positive number, as \<^verbatim>\<open>bits.Len\<close> counts them.\<close>

function bitlen :: "int \<Rightarrow> int" where
  "bitlen n = (if n \<le> 0 then 0 else 1 + bitlen (n div 2))"
  by pat_completeness auto
termination
  by (relation "measure nat") auto

function lowest_terms :: "int \<Rightarrow> int \<Rightarrow> int \<times> int" where
  "lowest_terms a e =
     (if a \<le> 0 then (0, 0)
      else if odd a then (a, e)
      else lowest_terms (a div 2) (e + 1))"
  by pat_completeness auto
termination
  by (relation "measure (\<lambda>(a, e). nat a)") auto

declare bitlen.simps [simp del] lowest_terms.simps [simp del]

definition finite_f64 :: "bool \<Rightarrow> int \<Rightarrow> int \<Rightarrow> float64" where
  "finite_f64 neg a e =
     (case lowest_terms a e of (a', e') \<Rightarrow> Finite (if neg then - a' else a') e')"

definition inf_f64 :: "bool \<Rightarrow> float64" where
  "inf_f64 neg = (if neg then NegInf else PosInf)"

text \<open>
  IEEE 754 rounding to nearest, ties to even, of the exact number \<open>a * 2 ^ e\<close> with
  \<open>0 \<le> a\<close> (negated when \<open>neg\<close>) to a double: 53 bits of mantissa, the exponent of the last place between
  \<open>-1074\<close> and \<open>971\<close>, infinity from \<open>2 ^ 1024\<close> on.
\<close>

definition round_f64 :: "bool \<Rightarrow> int \<Rightarrow> int \<Rightarrow> float64" where
  "round_f64 neg a e =
     (let E = max (e + bitlen a - 53) (- 1074) in
      if a = 0 then Finite 0 0
      else if E \<le> e then (if 971 < E then inf_f64 neg else finite_f64 neg a e)
      else
        (let k = nat (E - e);
             q = a div 2 ^ k;
             r = a mod 2 ^ k;
             h = 2 ^ (k - 1);
             q' = (if h < r \<or> (r = h \<and> odd q) then q + 1 else q)
         in if 971 < E \<or> (E = 971 \<and> q' = 2 ^ 53) then inf_f64 neg
            else finite_f64 neg q' E))"

definition f64_neg :: "float64 \<Rightarrow> bool" where
  "f64_neg x = (case x of Finite m e \<Rightarrow> m < 0 | NegInf \<Rightarrow> True | _ \<Rightarrow> False)"

definition f64_zero :: "float64 \<Rightarrow> bool" where
  "f64_zero x = (case x of Finite m e \<Rightarrow> m = 0 | _ \<Rightarrow> False)"

text \<open>The product \<^verbatim>\<open>x * y\<close> of two doubles: the exact product, rounded once.\<close>

fun f64_mul :: "float64 \<Rightarrow> float64 \<Rightarrow> float64" where
  "f64_mul NaN y = NaN"
| "f64_mul x NaN = NaN"
| "f64_mul (Finite m1 e1) (Finite m2 e2) =
     round_f64 ((m1 < 0) \<noteq> (m2 < 0)) \<bar>m1 * m2\<bar> (e1 + e2)"
| "f64_mul x y =
     (if f64_zero x \<or> f64_zero y then NaN else inf_f64 (f64_neg x \<noteq> f64_neg y))"

text \<open>The comparison \<^verbatim>\<open>x > 0\<close>.\<close>

definition f64_gt0 :: "float64 \<Rightarrow> bool" where
  "f64_gt0 x = (case x of Finite m e \<Rightarrow> 0 < m | PosInf \<Rightarrow> True | _ \<Rightarrow> False)"

text \<open>The constant \<^verbatim>\<open>1e9\<close>, which is \<open>1953125 * 2 ^ 9\<close>.\<close>

definition f64_1e9 :: float64 where
  "f64_1e9 = Finite 1953125 9"

text \<open>
  The conversion \<^verbatim>\<open>int64(x)\<close> discards the fraction (truncation towards zero). Where the
  result does not fit 64 bits, or \<open>x\<close> is no number, the language leaves the value to the
  implementation: it is the parameter \<open>unrep\<close>.
\<close>

definition f64_trunc :: "int \<Rightarrow> int \<Rightarrow> int" where
  "f64_trunc m e =
     (if 0 \<le> e then m * 2 ^ nat e
      else if 0 \<le> m then m div 2 ^ nat (- e)
      else - ((- m) div 2 ^ nat (- e)))"

definition f64_to_int64 :: "(float64 \<Rightarrow> 64 word) \<Rightarrow> float64 \<Rightarrow> 64 word" where
  "f64_to_int64 unrep x =
     (case x of
        Finite m e \<Rightarrow>
          (let t = f64_trunc m e
           in if - (2 ^ 63) \<le> t \<and> t < 2 ^ 63 then word_of_int t else unrep x)
      | _ \<Rightarrow> unrep x)"

section \<open>Data\<close>

type_synonym address = "160 word"
type_synonym hash = "256 word"

text \<open>
  \<^verbatim>\<open>ecdsa.PublicKey\<close> and \<^verbatim>\<open>ecdsa.PrivateKey\<close>, which embeds the public key. \<^verbatim>\<open>Public()\<close>
  returns the embedded key as a value of the interface \<^verbatim>\<open>crypto.PublicKey\<close>, which the
  program casts back with a checked type assertion.
\<close>

record PublicKey =
  X :: int
  Y :: int

record PrivateKey = PublicKey +
  D :: int

datatype crypto_PublicKey = ECDSA_PublicKey PublicKey | Other_PublicKey

definition Public :: "PrivateKey \<Rightarrow> crypto_PublicKey" where
  "Public priv = ECDSA_PublicKey (PublicKey.truncate priv)"

text \<open>
  \<^verbatim>\<open>bind.TransactOpts\<close>: the fields the program reads or writes. A \<^verbatim>\<open>*big.Int\<close> field
  that is \<^verbatim>\<open>nil\<close> is \<open>None\<close>. (\<^verbatim>\<open>Signer\<close>, \<^verbatim>\<open>Context\<close>, \<^verbatim>\<open>GasFeeCap\<close>, \<^verbatim>\<open>GasTipCap\<close> and
  \<^verbatim>\<open>NoSend\<close> are never touched by the program.)
\<close>

record TransactOpts =
  From :: address
  Nonce :: "int option"
  Value :: "int option"
  GasPrice :: "int option"
  GasLimit :: "64 word"

record Receipt =
  Status :: "64 word"
  GasUsed :: "64 word"

record Transaction =
  Hash :: hash

text \<open>
  The deployed contract's binding: what its three read-only calls answer.
\<close>

record Instance =
  Name :: "error + string"
  Symbol :: "error + string"
  Decimals :: "error + 8 word"

text \<open>
  \<^verbatim>\<open>ethclient.Client\<close>: what the node answers to each query. \<open>TransactionReceipt t h\<close> is
  the answer to the \<open>t\<close>-th query (counted from 0) for the receipt of transaction \<open>h\<close>.
\<close>

record Client =
  PendingNonceAt :: "address \<Rightarrow> error + 64 word"
  ChainID :: "error + int"
  SuggestGasPrice :: "error + int"
  TransactionReceipt :: "nat \<Rightarrow> hash \<Rightarrow> error + Receipt"

text \<open>
  The library functions the program calls and this development does not define, as
  parameters: \<^verbatim>\<open>crypto.HexToECDSA\<close> and \<^verbatim>\<open>crypto.PubkeyToAddress\<close> of go-ethereum,
  \<^verbatim>\<open>strings.TrimSpace\<close>, and what the platform makes of a \<^verbatim>\<open>float64\<close> that \<^verbatim>\<open>int64\<close>
  cannot represent.
\<close>

record lib =
  HexToECDSA :: "string \<Rightarrow> error + PrivateKey"
  PubkeyToAddress :: "PublicKey \<Rightarrow> address"
  TrimSpace :: "string \<Rightarrow> string"
  int64_unrepresentable :: "float64 \<Rightarrow> 64 word"

text \<open>
  The world outside the process: the result of the one \<^verbatim>\<open>ReadString('\n')\<close> on standard
  input, the node behind each URL, and the generated binding \<^verbatim>\<open>DeployERC20Token\<close>, whose
  source is not part of the repository's files.
\<close>

record world =
  stdin_ReadString :: "error + string"
  Dial :: "string \<Rightarrow> error + Client"
  DeployERC20Token ::
    "TransactOpts \<Rightarrow> Client \<Rightarrow> string \<Rightarrow> string \<Rightarrow> 8 word \<Rightarrow> int
      \<Rightarrow> error + (address \<times> Transaction \<times> Instance)"

text \<open>
  The package-level flag variables. \<^verbatim>\<open>uint\<close> is taken as 64 bits wide.
\<close>

record flags =
  rpcURL :: string
  privateKey :: string
  tokenName :: string
  tokenSymbol :: string
  tokenDecimals :: "64 word"
  totalSupply :: string
  gasLimit :: "64 word"
  gasPriceGwei :: float64

section \<open>Effects\<close>

text \<open>
  What a run does is the list of its events, in order: lines written to standard output,
  the read of standard input, and every call that goes to the network.
\<close>

datatype stdout_line =
    PromptPrivateKey
  | DeploymentInitiated
  | ContractAddress address
  | TransactionHash hash
  | WaitingToBeMined
  | DeploymentSuccessful
  | GasUsedLine "64 word"
  | TokenNameLine string
  | TokenSymbolLine string
  | TokenDecimalsLine "8 word"
  | DeploymentFailed

datatype event =
    Stdout stdout_line
  | StdinRead
  | NetDial string
  | NetPendingNonceAt address
  | NetChainID
  | NetSuggestGasPrice
  | NetDeploy string string "8 word" int
  | NetWaitMined hash
  | NetName
  | NetSymbol
  | NetDecimals
  | NetClose

fun is_network :: "event \<Rightarrow> bool" where
  "is_network (Stdout out) = False"
| "is_network StdinRead = False"
| "is_network ev = True"

fun is_verification :: "event \<Rightarrow> bool" where
  "is_verification NetName = True"
| "is_verification NetSymbol = True"
| "is_verification NetDecimals = True"
| "is_verification ev = False"

text \<open>The messages of \<^verbatim>\<open>log.Fatal\<close> and \<^verbatim>\<open>log.Fatalf\<close>, and how a run ends.\<close>

datatype fatal =
    FatalAllFlagsRequired
  | FatalReadPrivateKey error
  | FatalConnect error
  | FatalCreateTransactor error
  | FatalParseSupply error
  | FatalDeploy error
  | FatalWaitMined error

datatype outcome = Returned | Exited fatal | Hangs

section \<open>createTransactor\<close>

text \<open>\<^verbatim>\<open>strings.HasPrefix\<close> and \<^verbatim>\<open>strings.TrimPrefix\<close>.\<close>

definition HasPrefix :: "string \<Rightarrow> string \<Rightarrow> bool" where
  "HasPrefix s p = (length p \<le> length s \<and> take (length p) s = p)"

definition TrimPrefix :: "string \<Rightarrow> string \<Rightarrow> string" where
  "TrimPrefix s p = (if HasPrefix s p then drop (length p) s else s)"

text \<open>
  \<^verbatim>\<open>bind.NewKeyedTransactorWithChainID\<close> of go-ethereum: it fails on a \<^verbatim>\<open>nil\<close> chain
  identifier, and otherwise returns options whose sender is the key's address and whose
  other fields are zero.
\<close>

definition NewKeyedTransactorWithChainID ::
    "lib \<Rightarrow> PrivateKey \<Rightarrow> int option \<Rightarrow> error + TransactOpts" where
  "NewKeyedTransactorWithChainID l key chainID =
     (case chainID of
        None \<Rightarrow> Inl (LibError ''no chain id specified'')
      | Some c \<Rightarrow>
          Inr \<lparr>From = PubkeyToAddress l (PublicKey.truncate key), Nonce = None,
               Value = None, GasPrice = None, GasLimit = 0\<rparr>)"

text \<open>
  \<^verbatim>\<open>createTransactor\<close> (lines 96 to 141). It reads the flags \<^verbatim>\<open>gasPriceGwei\<close> and
  \<^verbatim>\<open>gasLimit\<close>, so the flags are an argument. The result is the network calls made, in
  order, and the value returned. \<^verbatim>\<open>big.NewInt(int64(nonce))\<close> reads the 64 bits of the
  nonce as a signed number (\<^const>\<open>sint\<close>).
\<close>

definition createTransactor ::
    "lib \<Rightarrow> flags \<Rightarrow> string \<Rightarrow> Client \<Rightarrow> event list \<times> (error + TransactOpts)" where
  "createTransactor l fl privateKeyHex client =
     (case HexToECDSA l (TrimPrefix privateKeyHex ''0x'') of
        Inl err \<Rightarrow> ([], Inl (InvalidPrivateKey err))
      | Inr key \<Rightarrow>
     (case Public key of
        Other_PublicKey \<Rightarrow> ([], Inl ErrorCastingPublicKey)
      | ECDSA_PublicKey publicKeyECDSA \<Rightarrow>
     (let fromAddress = PubkeyToAddress l publicKeyECDSA in
      case PendingNonceAt client fromAddress of
        Inl err \<Rightarrow> ([NetPendingNonceAt fromAddress], Inl (FailedToGetNonce err))
      | Inr nonce \<Rightarrow>
     (case ChainID client of
        Inl err \<Rightarrow> ([NetPendingNonceAt fromAddress, NetChainID], Inl (FailedToGetChainID err))
      | Inr chainID \<Rightarrow>
     (case NewKeyedTransactorWithChainID l key (Some chainID) of
        Inl err \<Rightarrow>
          ([NetPendingNonceAt fromAddress, NetChainID], Inl (FailedToCreateTransactor err))
      | Inr auth0 \<Rightarrow>
     (let auth1 = auth0\<lparr>Nonce := Some (sint nonce)\<rparr>;
          auth2 = auth1\<lparr>Value := Some 0\<rparr>
      in
      if f64_gt0 (gasPriceGwei fl) then
        (let gasPriceWei =
               sint (f64_to_int64 (int64_unrepresentable l)
                       (f64_mul (gasPriceGwei fl) f64_1e9)) * 1;
             auth3 = auth2\<lparr>GasPrice := Some gasPriceWei\<rparr>
         in ([NetPendingNonceAt fromAddress, NetChainID],
             Inr (auth3\<lparr>GasLimit := gasLimit fl\<rparr>)))
      else
        (case SuggestGasPrice client of
           Inl err \<Rightarrow>
             ([NetPendingNonceAt fromAddress, NetChainID, NetSuggestGasPrice],
              Inl (FailedToSuggestGasPrice err))
         | Inr gasPrice \<Rightarrow>
             (let auth3 = auth2\<lparr>GasPrice := Some gasPrice\<rparr>
              in ([NetPendingNonceAt fromAddress, NetChainID, NetSuggestGasPrice],
                  Inr (auth3\<lparr>GasLimit := gasLimit fl\<rparr>))))))))))"

section \<open>promptForPrivateKey\<close>

text \<open>
  Lines 154 to 167: the prompt is printed, one line is read, and a read error is fatal.
  The function assigns the trimmed line to the flag variable \<^verbatim>\<open>privateKey\<close>, so it
  returns the flags with its answer.
\<close>

definition promptForPrivateKey ::
    "lib \<Rightarrow> world \<Rightarrow> flags \<Rightarrow> event list \<times> (fatal + bool \<times> flags)" where
  "promptForPrivateKey l w fl =
     (case stdin_ReadString w of
        Inl err \<Rightarrow> ([Stdout PromptPrivateKey, StdinRead], Inl (FatalReadPrivateKey err))
      | Inr line \<Rightarrow>
          (let key = TrimSpace l line in
           if key = [] then ([Stdout PromptPrivateKey, StdinRead], Inr (False, fl))
           else ([Stdout PromptPrivateKey, StdinRead], Inr (True, fl\<lparr>privateKey := key\<rparr>))))"

section \<open>bind.WaitMined\<close>

text \<open>
  \<^verbatim>\<open>main\<close> waits with \<^verbatim>\<open>bind.WaitMined(context.Background(), client, tx)\<close>. The library's
  loop asks for the receipt, returns it when the query succeeds, and otherwise waits for
  the next tick of a one-second ticker or for the context to be done, whichever comes
  first; a context that is done ends the loop with the context's error, and a query made
  with a context that is done fails with that error too. Time is counted in ticks. The
  background context is never done; the context with a deadline is here so that the two
  can be told apart. The loop may run forever: not returning is \<open>None\<close>.
\<close>

datatype ctx = Background | WithDeadline nat

fun ctx_Done :: "ctx \<Rightarrow> nat \<Rightarrow> bool" where
  "ctx_Done Background t = False"
| "ctx_Done (WithDeadline d) t = (d \<le> t)"

definition DeadlineExceeded :: error where
  "DeadlineExceeded = LibError ''context deadline exceeded''"

partial_function (option) WaitMined_from ::
    "ctx \<Rightarrow> Client \<Rightarrow> Transaction \<Rightarrow> nat \<Rightarrow> (error + Receipt) option" where
  "WaitMined_from c b tx t =
     (case (if ctx_Done c t then Inl DeadlineExceeded
            else TransactionReceipt b t (Hash tx)) of
        Inr receipt \<Rightarrow> Some (Inr receipt)
      | Inl err \<Rightarrow>
          if ctx_Done c t then Some (Inl DeadlineExceeded)
          else WaitMined_from c b tx (Suc t))"

declare WaitMined_from.simps [code]

definition WaitMined :: "ctx \<Rightarrow> Client \<Rightarrow> Transaction \<Rightarrow> (error + Receipt) option" where
  "WaitMined c b tx = WaitMined_from c b tx 0"

section \<open>main\<close>

text \<open>
  Line 33 to 35, the check of the flags. \<^verbatim>\<open>||\<close> and \<^verbatim>\<open>&&\<close> evaluate from the left and
  stop early: an empty URL ends the run before the prompt, and the prompt runs only when
  the key flag is empty.
\<close>

definition main_flags :: "lib \<Rightarrow> world \<Rightarrow> flags \<Rightarrow> event list \<times> (fatal + flags)" where
  "main_flags l w fl =
     (if rpcURL fl = [] then ([], Inl FatalAllFlagsRequired)
      else if privateKey fl = [] then
        (case promptForPrivateKey l w fl of
           (evs, Inl f) \<Rightarrow> (evs, Inl f)
         | (evs, Inr (ok, fl')) \<Rightarrow>
             if \<not> ok then (evs, Inl FatalAllFlagsRequired)
             else if tokenName fl' = [] \<or> tokenSymbol fl' = [] \<or> totalSupply fl' = []
               then (evs, Inl FatalAllFlagsRequired)
             else (evs, Inr fl'))
      else if tokenName fl = [] \<or> tokenSymbol fl = [] \<or> totalSupply fl = []
        then ([], Inl FatalAllFlagsRequired)
      else ([], Inr fl))"

text \<open>
  Lines 37 to 73: connect, build the authorization, scale the supply, deploy, print, wait.
  \<^verbatim>\<open>uint8(*tokenDecimals)\<close> keeps the low eight bits (\<^const>\<open>ucast\<close>).
\<close>

definition main_deploy ::
    "lib \<Rightarrow> world \<Rightarrow> flags \<Rightarrow> event list \<times> (outcome + Receipt \<times> Instance)" where
  "main_deploy l w fl =
     (case Dial w (rpcURL fl) of
        Inl err \<Rightarrow> ([NetDial (rpcURL fl)], Inl (Exited (FatalConnect err)))
      | Inr client \<Rightarrow>
     (case createTransactor l fl (privateKey fl) client of
        (evs1, Inl err) \<Rightarrow>
          (NetDial (rpcURL fl) # evs1, Inl (Exited (FatalCreateTransactor err)))
      | (evs1, Inr auth) \<Rightarrow>
     (case parseSupply (totalSupply fl) (ucast (tokenDecimals fl)) of
        Inl err \<Rightarrow> (NetDial (rpcURL fl) # evs1, Inl (Exited (FatalParseSupply err)))
      | Inr supply \<Rightarrow>
     (let evs2 = NetDial (rpcURL fl) # evs1 @
                 [NetDeploy (tokenName fl) (tokenSymbol fl) (ucast (tokenDecimals fl)) supply]
      in
      case DeployERC20Token w auth client (tokenName fl) (tokenSymbol fl)
             (ucast (tokenDecimals fl)) supply of
        Inl err \<Rightarrow> (evs2, Inl (Exited (FatalDeploy err)))
      | Inr (addr, tx, instance) \<Rightarrow>
     (let evs3 = evs2 @
                 [Stdout DeploymentInitiated, Stdout (ContractAddress addr),
                  Stdout (TransactionHash (Hash tx)), Stdout WaitingToBeMined,
                  NetWaitMined (Hash tx)]
      in
      case WaitMined Background client tx of
        None \<Rightarrow> (evs3, Inl Hangs)
      | Some (Inl err) \<Rightarrow> (evs3, Inl (Exited (FatalWaitMined err)))
      | Some (Inr receipt) \<Rightarrow> (evs3, Inr (receipt, instance)))))))"

text \<open>
  Lines 75 to 93: the report. Each of the three calls is made whatever the one before it
  answered, and its answer is printed only when it is no error.
\<close>

definition main_report :: "Receipt \<Rightarrow> Instance \<Rightarrow> event list" where
  "main_report receipt instance =
     (if Status receipt = 1 then
        [Stdout DeploymentSuccessful, Stdout (GasUsedLine (GasUsed receipt))] @
        NetName #
        (case Name instance of Inr name \<Rightarrow> [Stdout (TokenNameLine name)] | Inl err \<Rightarrow> []) @
        NetSymbol #
        (case Symbol instance of Inr symbol \<Rightarrow> [Stdout (TokenSymbolLine symbol)] | Inl err \<Rightarrow> []) @
        NetDecimals #
        (case Decimals instance of
           Inr decimals \<Rightarrow> [Stdout (TokenDecimalsLine decimals)]
         | Inl err \<Rightarrow> [])
      else [Stdout DeploymentFailed])"

text \<open>
  \<^verbatim>\<open>main\<close>: the three parts in order. A fatal log message exits the process at once; the
  deferred \<^verbatim>\<open>client.Close()\<close> runs only when \<^verbatim>\<open>main\<close> returns.
\<close>

definition main :: "lib \<Rightarrow> world \<Rightarrow> flags \<Rightarrow> event list \<times> outcome" where
  "main l w fl0 =
     (case main_flags l w fl0 of
        (evs0, Inl f) \<Rightarrow> (evs0, Exited f)
      | (evs0, Inr fl) \<Rightarrow>
          (case main_deploy l w fl of
             (evs1, Inl out) \<Rightarrow> (evs0 @ evs1, out)
           | (evs1, Inr (receipt, instance)) \<Rightarrow>
               (evs0 @ evs1 @ main_report receipt instance @ [NetClose], Returned)))"

section \<open>Vocabulary of the statements\<close>

text \<open>
  A decimal string is a non-empty string of the digits 0 to 9, and its value is the
  number it writes, most significant digit first.
\<close>

definition is_digit :: "char \<Rightarrow> bool" where
  "is_digit c = (48 \<le> (of_char c :: int) \<and> (of_char c :: int) \<le> 57)"

definition decimal_string :: "string \<Rightarrow> bool" where
  "decimal_string s = (s \<noteq> [] \<and> list_all is_digit s)"

definition has_non_digit :: "string \<Rightarrow> bool" where
  "has_non_digit s = list_ex (\<lambda>c. \<not> is_digit c) s"

fun decimal_value :: "string \<Rightarrow> int" where
  "decimal_value [] = 0"
| "decimal_value (c # cs) = (of_char c - 48) * 10 ^ length cs + decimal_value cs"

text \<open>The string without one leading sign, if it has one.\<close>

definition strip_sign :: "string \<Rightarrow> string" where
  "strip_sign s =
     (case s of
        [] \<Rightarrow> []
      | c # r \<Rightarrow> if c = CHR ''-'' \<or> c = CHR ''+'' then r else s)"

text \<open>The number a string with an optional sign writes.\<close>

definition signed_value :: "string \<Rightarrow> int" where
  "signed_value s =
     (if take 1 s = ''-'' then - decimal_value (strip_sign s)
      else decimal_value (strip_sign s))"

text \<open>
  The signing secret is absent when the flag is empty and the prompt yields no key
  either: the read fails, or the line read is blank. A mandatory parameter is absent when
  the URL, the secret, the name, the symbol or the supply is.
\<close>

definition secret_absent :: "lib \<Rightarrow> world \<Rightarrow> flags \<Rightarrow> bool" where
  "secret_absent l w fl =
     (privateKey fl = [] \<and>
      (case stdin_ReadString w of Inl err \<Rightarrow> True | Inr line \<Rightarrow> TrimSpace l line = []))"

definition mandatory_absent :: "lib \<Rightarrow> world \<Rightarrow> flags \<Rightarrow> bool" where
  "mandatory_absent l w fl =
     (rpcURL fl = [] \<or> secret_absent l w fl \<or> tokenName fl = [] \<or>
      tokenSymbol fl = [] \<or> totalSupply fl = [])"

section \<open>An example environment\<close>

text \<open>
  The concrete library, node and flags at which the theorems below are instantiated.
  \<^verbatim>\<open>crypto.HexToECDSA\<close> is go-ethereum's: \<^verbatim>\<open>hex.DecodeString\<close>, then \<^verbatim>\<open>ToECDSA\<close>, which
  wants exactly 32 bytes and a scalar \<open>D\<close> with \<open>0 < D < N\<close> for the order \<open>N\<close> of
  secp256k1 (the error texts are the library's, without the byte they quote). The curve
  multiplication and the address hash are tabulated at the one key the examples use, the
  scalar 1, whose public key is the curve's generator.
\<close>

definition fromHexChar :: "char \<Rightarrow> int option" where
  "fromHexChar ch =
     (let c = (of_char ch :: int) in
      if 48 \<le> c \<and> c \<le> 57 then Some (c - 48)
      else if 97 \<le> c \<and> c \<le> 102 then Some (c - 97 + 10)
      else if 65 \<le> c \<and> c \<le> 70 then Some (c - 65 + 10)
      else None)"

fun hex_DecodeString :: "string \<Rightarrow> error + int list" where
  "hex_DecodeString [] = Inr []"
| "hex_DecodeString [p] =
     (case fromHexChar p of
        None \<Rightarrow> Inl (LibError ''invalid hex character in private key'')
      | Some a \<Rightarrow> Inl (LibError ''invalid hex data for private key''))"
| "hex_DecodeString (p # q # r) =
     (case fromHexChar p of
        None \<Rightarrow> Inl (LibError ''invalid hex character in private key'')
      | Some a \<Rightarrow>
          (case fromHexChar q of
             None \<Rightarrow> Inl (LibError ''invalid hex character in private key'')
           | Some b \<Rightarrow>
               (case hex_DecodeString r of
                  Inl err \<Rightarrow> Inl err
                | Inr bs \<Rightarrow> Inr ((a * 16 + b) # bs))))"

definition SetBytes :: "int list \<Rightarrow> int" where
  "SetBytes bs = foldl (\<lambda>acc b. acc * 256 + b) 0 bs"

definition secp256k1N :: int where
  "secp256k1N = 0xFFFFFFFFFFFFFFFFFFFFFFFFFFFFFFFEBAAEDCE6AF48A03BBFD25E8CD0364141"

definition crypto_ToECDSA :: "(int \<Rightarrow> int \<times> int) \<Rightarrow> int list \<Rightarrow> error + PrivateKey" where
  "crypto_ToECDSA scalarBaseMult d =
     (if 8 * length d \<noteq> 256 then Inl (LibError ''invalid length, need 256 bits'')
      else if secp256k1N \<le> SetBytes d then Inl (LibError ''invalid private key, >=N'')
      else if SetBytes d \<le> 0 then Inl (LibError ''invalid private key, zero or negative'')
      else
        (case scalarBaseMult (SetBytes d) of
           (x, y) \<Rightarrow> Inr \<lparr>X = x, Y = y, D = SetBytes d\<rparr>))"

definition crypto_HexToECDSA :: "(int \<Rightarrow> int \<times> int) \<Rightarrow> string \<Rightarrow> error + PrivateKey" where
  "crypto_HexToECDSA scalarBaseMult hexkey =
     (case hex_DecodeString hexkey of
        Inl err \<Rightarrow> Inl err
      | Inr b \<Rightarrow> crypto_ToECDSA scalarBaseMult b)"

definition ex_generator :: "int \<times> int" where
  "ex_generator =
     (0x79BE667EF9DCBBAC55A06295CE870B07029BFCDB2DCE28D959F2815B16F81798,
      0x483ADA7726A3C4655DA4FBFC0E1108A8FD17B448A68554199C47D08FFB10D4B8)"

definition ex_ScalarBaseMult :: "int \<Rightarrow> int \<times> int" where
  "ex_ScalarBaseMult d = (if d = 1 then ex_generator else (0, 0))"

definition ex_PubkeyToAddress :: "PublicKey \<Rightarrow> address" where
  "ex_PubkeyToAddress pub =
     (if (X pub, Y pub) = ex_generator then 0x7E5F4552091A69125D5DFCB7B8C2659029395BDF
      else 0)"

text \<open>\<^verbatim>\<open>strings.TrimSpace\<close> on ASCII text: blanks, tabs, line ends.\<close>

definition ascii_space :: "char \<Rightarrow> bool" where
  "ascii_space ch =
     ((of_char ch :: int) = 32 \<or> (9 \<le> (of_char ch :: int) \<and> (of_char ch :: int) \<le> 13))"

definition ascii_TrimSpace :: "string \<Rightarrow> string" where
  "ascii_TrimSpace s = rev (dropWhile ascii_space (rev (dropWhile ascii_space s)))"

definition ex_lib :: lib where
  "ex_lib =
     \<lparr>HexToECDSA = crypto_HexToECDSA ex_ScalarBaseMult,
      PubkeyToAddress = ex_PubkeyToAddress,
      TrimSpace = ascii_TrimSpace,
      int64_unrepresentable = (\<lambda>x. 0x8000000000000000)\<rparr>"

definition ex_key :: string where
  "ex_key = ''0000000000000000000000000000000000000000000000000000000000000001''"

definition NotFound :: error where
  "NotFound = LibError ''not found''"

text \<open>A node that mines the transaction at the fourth query, with success.\<close>

definition ex_client :: Client where
  "ex_client =
     \<lparr>PendingNonceAt = (\<lambda>a. Inr 7),
      ChainID = Inr 1,
      SuggestGasPrice = Inr 20000000000,
      TransactionReceipt =
        (\<lambda>t h. if t < 3 then Inl NotFound else Inr \<lparr>Status = 1, GasUsed = 1234567\<rparr>)\<rparr>"

definition ex_instance :: Instance where
  "ex_instance = \<lparr>Name = Inr ''TestCoin'', Symbol = Inr ''TST'', Decimals = Inr 18\<rparr>"

definition ex_world :: world where
  "ex_world =
     \<lparr>stdin_ReadString = Inr [CHR 0x0A],
      Dial = (\<lambda>url. Inr ex_client),
      DeployERC20Token =
        (\<lambda>auth client name symbol decimals supply.
           Inr (0xF2E246BB76DF876CEF8B38AE84130F4F55DE395B, \<lparr>Hash = 0xABCD\<rparr>, ex_instance))\<rparr>"

definition ex_flags :: flags where
  "ex_flags =
     \<lparr>rpcURL = ''http://localhost:8545'',
      privateKey = ex_key,
      tokenName = ''TestCoin'',
      tokenSymbol = ''TST'',
      tokenDecimals = 18,
      totalSupply = ''1000'',
      gasLimit = 3000000,
      gasPriceGwei = Finite 0 0\<rparr>"

text \<open>A node cut off from the network after the deployment: no receipt ever arrives.\<close>

definition ex_client_partitioned :: Client where
  "ex_client_partitioned = ex_client\<lparr>TransactionReceipt := (\<lambda>t h. Inl NotFound)\<rparr>"

definition ex_world_partitioned :: world where
  "ex_world_partitioned = ex_world\<lparr>Dial := (\<lambda>url. Inr ex_client_partitioned)\<rparr>"

text \<open>A contract whose \<^verbatim>\<open>Symbol\<close> call fails although the deployment succeeded.\<close>

definition ex_world_symbol_fails :: world where
  "ex_world_symbol_fails =
     ex_world\<lparr>DeployERC20Token :=
        (\<lambda>auth client name symbol decimals supply.
           Inr (0xF2E246BB76DF876CEF8B38AE84130F4F55DE395B, \<lparr>Hash = 0xABCD\<rparr>,
                ex_instance\<lparr>Symbol := Inl (LibError ''execution reverted'')\<rparr>))\<rparr>"

text \<open>A node that mines the transaction at once, with the failure status 0.\<close>

definition ex_client_reverted :: Client where
  "ex_client_reverted =
     ex_client\<lparr>TransactionReceipt := (\<lambda>t h. Inr \<lparr>Status = 0, GasUsed = 3000000\<rparr>)\<rparr>"

definition ex_world_reverted :: world where
  "ex_world_reverted = ex_world\<lparr>Dial := (\<lambda>url. Inr ex_client_reverted)\<rparr>"

chapter \<open>Properties\<close>

section \<open>parseSupply: what \<^verbatim>\<open>SetString\<close> accepts and what it returns\<close>


lemma digitVal_lt_10: "digitVal c < 10 \<longleftrightarrow> is_digit c"
  by (auto simp: digitVal_def is_digit_def Let_def)

lemma digitVal_digit: "is_digit c \<Longrightarrow> digitVal c = of_char c - 48"
  by (simp add: digitVal_def is_digit_def Let_def)

lemma scanDigits_10:
  "scanDigits 10 z n s =
     (z * 10 ^ length (takeWhile is_digit s) + decimal_value (takeWhile is_digit s),
      n + length (takeWhile is_digit s), dropWhile is_digit s)"
proof (induction s arbitrary: z n)
  case Nil
  show ?case by simp
next
  case (Cons c s)
  show ?case
  proof (cases "is_digit c")
    case True
    then have "\<not> 10 \<le> digitVal c" using digitVal_lt_10 [of c] by simp
    with True show ?thesis
      by (simp add: Cons.IH digitVal_digit algebra_simps)
  next
    case False
    then have "10 \<le> digitVal c" using digitVal_lt_10 [of c] by simp
    with False show ?thesis by simp
  qed
qed

lemma nat_scan_10_rest:
  "(case nat_scan 10 s of None \<Rightarrow> None | Some (m, rest) \<Rightarrow> if rest = [] then Some m else None) =
     (if decimal_string s then Some (decimal_value s) else None)"
proof (cases "list_all is_digit s")
  case True
  then have tw: "takeWhile is_digit s = s" and dw: "dropWhile is_digit s = []"
    by (simp_all add: list_all_iff)
  show ?thesis
    by (simp add: nat_scan_def scanDigits_10 decimal_string_def tw dw True)
next
  case False
  then have "dropWhile is_digit s \<noteq> []" by (simp add: list_all_iff)
  then show ?thesis using False
    by (auto simp: nat_scan_def scanDigits_10 decimal_string_def list_all_iff)
qed

lemma decimal_value_nonneg: "list_all is_digit s \<Longrightarrow> 0 \<le> decimal_value s"
  by (induction s) (auto simp: is_digit_def)

lemma nat_scan_nonneg:
  assumes "nat_scan 10 r = Some (a, rest)"
  shows "0 \<le> a"
proof -
  have "list_all is_digit (takeWhile is_digit r)"
    by (auto simp: list_all_iff dest: set_takeWhileD)
  then have "0 \<le> decimal_value (takeWhile is_digit r)"
    by (rule decimal_value_nonneg)
  then show ?thesis using assms
    by (auto simp: nat_scan_def scanDigits_10 split: if_splits)
qed

lemma SetString_10:
  "SetString s 10 = (if decimal_string (strip_sign s) then Some (signed_value s) else None)"
proof (cases s)
  case Nil
  then show ?thesis
    by (simp add: SetString_def Int_scan_def scanSign_def strip_sign_def decimal_string_def)
next
  case (Cons c r)
  consider (minus) "c = CHR ''-''" | (plus) "c = CHR ''+''" | (other) "c \<noteq> CHR ''-''" "c \<noteq> CHR ''+''"
    by blast
  then show ?thesis
  proof cases
    case minus
    have "SetString s 10 =
      (case (case nat_scan 10 r of None \<Rightarrow> None | Some (m, rest) \<Rightarrow> if rest = [] then Some m else None)
       of None \<Rightarrow> None | Some m \<Rightarrow> Some (- m))"
      using Cons minus
      by (auto simp: SetString_def Int_scan_def scanSign_def split: option.splits
          dest: nat_scan_nonneg)
    then show ?thesis using Cons minus
      by (simp add: nat_scan_10_rest strip_sign_def signed_value_def)
  next
    case plus
    have "SetString s 10 =
      (case (case nat_scan 10 r of None \<Rightarrow> None | Some (m, rest) \<Rightarrow> if rest = [] then Some m else None)
       of None \<Rightarrow> None | Some m \<Rightarrow> Some m)"
      using Cons plus
      by (auto simp: SetString_def Int_scan_def scanSign_def split: option.splits)
    then show ?thesis using Cons plus
      by (simp add: nat_scan_10_rest strip_sign_def signed_value_def)
  next
    case other
    have "SetString s 10 =
      (case (case nat_scan 10 s of None \<Rightarrow> None | Some (m, rest) \<Rightarrow> if rest = [] then Some m else None)
       of None \<Rightarrow> None | Some m \<Rightarrow> Some m)"
      using Cons other
      by (auto simp: SetString_def Int_scan_def scanSign_def split: option.splits)
    then show ?thesis using Cons other
      by (simp add: nat_scan_10_rest strip_sign_def signed_value_def)
  qed
qed

lemma Exp_10: "Exp 10 (uint (d :: 8 word)) = 10 ^ unat d"
proof (cases "d = 0")
  case True
  then show ?thesis by (simp add: Exp_def)
next
  case False
  then have "0 < uint d" by (simp add: word_neq_0_conv word_less_def)
  then show ?thesis by (simp add: Exp_def)
qed

lemma parseSupply_eq:
  "parseSupply s d =
     (if decimal_string (strip_sign s) then Inr (signed_value s * 10 ^ unat d)
      else Inl (InvalidSupplyValue s))"
  by (simp add: parseSupply_def SetString_10 Exp_10)

lemma decimal_string_strip_sign:
  "decimal_string a \<Longrightarrow> strip_sign a = a \<and> signed_value a = decimal_value a"
  by (cases a) (auto simp: decimal_string_def strip_sign_def signed_value_def is_digit_def)

text \<open>
  Claim C1. For every decimal string \<open>a\<close> (non-empty, digits only) and every \<open>decimals\<close>
  value \<open>d\<close> of type \<^verbatim>\<open>uint8\<close>, \<^verbatim>\<open>parseSupply(a, d)\<close> returns without error the
  integer \<open>a * 10 ^ d\<close>, exactly; in particular \<^verbatim>\<open>parseSupply("1000000000000000000", 18)\<close>
  is \<open>10 ^ 36\<close> and \<^verbatim>\<open>parseSupply("0", 18)\<close> is 0.
\<close>

theorem parseSupply_scales:
  "(decimal_string a \<longrightarrow> parseSupply a d = Inr (decimal_value a * 10 ^ unat d)) \<and>
   parseSupply ''1000000000000000000'' 18 = Inr (10 ^ 36) \<and>
   parseSupply ''0'' 18 = Inr 0"
proof (intro conjI impI)
  assume "decimal_string a"
  then show "parseSupply a d = Inr (decimal_value a * 10 ^ unat d)"
    using decimal_string_strip_sign [of a] by (simp add: parseSupply_eq)
next
  have ds: "decimal_string ''1000000000000000000''"
    by (simp add: decimal_string_def is_digit_def)
  show "parseSupply ''1000000000000000000'' 18 = Inr (10 ^ 36)"
    using decimal_string_strip_sign [OF ds] ds by (simp add: parseSupply_eq)
next
  have ds: "decimal_string ''0''"
    by (simp add: decimal_string_def is_digit_def)
  show "parseSupply ''0'' 18 = Inr 0"
    using decimal_string_strip_sign [OF ds] ds by (simp add: parseSupply_eq)
qed

theorem parseSupply_scales_witness:
  "decimal_string ''1000'' \<and> decimal_value ''1000'' = 1000 \<and>
   parseSupply ''1000'' 18 = Inr 1000000000000000000000"
proof -
  have ds: "decimal_string ''1000''"
    by (simp add: decimal_string_def is_digit_def)
  have "parseSupply ''1000'' 18 = Inr (decimal_value ''1000'' * 10 ^ unat (18 :: 8 word))"
    using parseSupply_scales [of "''1000''" 18] ds by blast
  then show ?thesis using ds by simp
qed

lemma not_decimal_string: "\<not> decimal_string x \<longleftrightarrow> x = [] \<or> has_non_digit x"
  by (auto simp: decimal_string_def has_non_digit_def list_all_iff list_ex_iff)

text \<open>
  Claim C2 says that every string that is empty or holds a character that is no digit is
  refused. It is not so: \<^verbatim>\<open>SetString\<close> reads one leading sign, so \<^verbatim>\<open>parseSupply("-5", 18)\<close>
  returns a (negative) value.
\<close>

theorem parseSupply_signed_counterexample:
  "has_non_digit ''-5'' \<and> parseSupply ''-5'' 18 = Inr (- 5000000000000000000)"
proof -
  have "decimal_string (strip_sign ''-5'')"
    by (simp add: strip_sign_def decimal_string_def is_digit_def)
  then have "parseSupply ''-5'' 18 = Inr (- 5000000000000000000)"
    by (simp add: parseSupply_eq signed_value_def strip_sign_def)
  moreover have "has_non_digit ''-5''"
    by (simp add: has_non_digit_def is_digit_def)
  ultimately show ?thesis by simp
qed

text \<open>
  Claim C2, amended. \<^verbatim>\<open>parseSupply\<close> returns the error \<open>InvalidSupplyValue\<close> for every
  string that, once one optional leading \<^verbatim>\<open>+\<close> or \<^verbatim>\<open>-\<close> is taken off, is empty or holds a
  character that is no digit, whatever the \<open>decimals\<close> value; in particular the empty
  string and \<^verbatim>\<open>"abc"\<close> are refused.
\<close>

theorem parseSupply_rejects:
  "(strip_sign s = [] \<or> has_non_digit (strip_sign s) \<longrightarrow>
      parseSupply s d = Inl (InvalidSupplyValue s)) \<and>
   parseSupply [] d = Inl (InvalidSupplyValue []) \<and>
   parseSupply ''abc'' 18 = Inl (InvalidSupplyValue ''abc'')"
proof (intro conjI impI)
  assume "strip_sign s = [] \<or> has_non_digit (strip_sign s)"
  then have "\<not> decimal_string (strip_sign s)" by (simp add: not_decimal_string)
  then show "parseSupply s d = Inl (InvalidSupplyValue s)" by (simp add: parseSupply_eq)
next
  show "parseSupply [] d = Inl (InvalidSupplyValue [])"
    by (simp add: parseSupply_eq strip_sign_def decimal_string_def)
next
  show "parseSupply ''abc'' 18 = Inl (InvalidSupplyValue ''abc'')"
    by (simp add: parseSupply_eq strip_sign_def decimal_string_def is_digit_def)
qed

theorem parseSupply_rejects_witness:
  "has_non_digit (strip_sign ''+12a4'') \<and>
   parseSupply ''+12a4'' 18 = Inl (InvalidSupplyValue ''+12a4'') \<and>
   strip_sign ''-'' = [] \<and>
   parseSupply ''-'' 0 = Inl (InvalidSupplyValue ''-'')"
proof -
  have a: "has_non_digit (strip_sign ''+12a4'')"
    by (simp add: strip_sign_def has_non_digit_def is_digit_def)
  have b: "strip_sign ''-'' = []"
    by (simp add: strip_sign_def)
  have "parseSupply ''+12a4'' 18 = Inl (InvalidSupplyValue ''+12a4'')"
    using parseSupply_rejects [of "''+12a4''" 18] a by blast
  moreover have "parseSupply ''-'' 0 = Inl (InvalidSupplyValue ''-'')"
    using parseSupply_rejects [of "''-''" 0] b by blast
  ultimately show ?thesis using a b by simp
qed

section \<open>createTransactor: the authorization it returns\<close>

lemma bit63:
  fixes k :: int
  assumes "0 \<le> k" "k < 2 ^ 64"
  shows "bit k 63 \<longleftrightarrow> 2 ^ 63 \<le> k"
proof -
  have "k div 2 ^ 63 = (if 2 ^ 63 \<le> k then 1 else 0)"
    using assms by (auto simp: div_pos_pos_trivial intro!: int_div_pos_eq [where r = "k - 2 ^ 63"])
  then show ?thesis by (simp add: bit_iff_odd)
qed

lemma sint_64: "sint (n :: 64 word) = (if 2 ^ 63 \<le> uint n then uint n - 2 ^ 64 else uint n)"
proof -
  have b: "0 \<le> uint n" "uint n < 2 ^ 64"
    using uint_bounded [of n] by simp_all
  have "take_bit 64 (uint n) = uint n"
    using b by (simp add: take_bit_int_eq_self)
  then show ?thesis
    using bit63 [OF b] by (simp add: sint_uint signed_take_bit_eq_take_bit_minus)
qed

text \<open>
  Every successful return of \<^verbatim>\<open>createTransactor\<close>: the key parsed, the two queries
  answered, and the five fields as the code sets them.
\<close>

lemma createTransactor_Inr:
  assumes "snd (createTransactor l fl k client) = Inr auth"
  shows "\<exists>key n c.
     HexToECDSA l (TrimPrefix k ''0x'') = Inr key \<and>
     PendingNonceAt client (PubkeyToAddress l (PublicKey.truncate key)) = Inr n \<and>
     ChainID client = Inr c \<and>
     From auth = PubkeyToAddress l (PublicKey.truncate key) \<and>
     Nonce auth = Some (sint n) \<and>
     Value auth = Some 0 \<and>
     GasLimit auth = gasLimit fl \<and>
     (if f64_gt0 (gasPriceGwei fl)
      then GasPrice auth =
             Some (sint (f64_to_int64 (int64_unrepresentable l)
                           (f64_mul (gasPriceGwei fl) f64_1e9)))
      else \<exists>p. SuggestGasPrice client = Inr p \<and> GasPrice auth = Some p)"
  using assms
  by (auto simp: createTransactor_def Public_def NewKeyedTransactorWithChainID_def Let_def
      split: sum.splits if_splits)

lemma createTransactor_events:
  "set (fst (createTransactor l fl k client)) \<subseteq>
     range NetPendingNonceAt \<union> {NetChainID, NetSuggestGasPrice}"
  by (auto simp: createTransactor_def Public_def NewKeyedTransactorWithChainID_def Let_def
      split: sum.splits if_splits)

text \<open>The example library on the example key: the scalar 1 and the generator's address.\<close>

lemma ex_HexToECDSA:
  "HexToECDSA ex_lib ex_key =
     Inr \<lparr>X = fst ex_generator, Y = snd ex_generator, D = 1\<rparr>"
  by (simp add: ex_lib_def ex_key_def crypto_HexToECDSA_def crypto_ToECDSA_def
      fromHexChar_def SetBytes_def secp256k1N_def ex_ScalarBaseMult_def ex_generator_def)

lemma ex_createTransactor:
  assumes "PendingNonceAt client 0x7E5F4552091A69125D5DFCB7B8C2659029395BDF = Inr n"
    and "ChainID client = Inr c"
    and "TrimPrefix k ''0x'' = ex_key"
  shows "snd (createTransactor ex_lib fl k client) =
     (if f64_gt0 (gasPriceGwei fl)
      then Inr \<lparr>From = 0x7E5F4552091A69125D5DFCB7B8C2659029395BDF, Nonce = Some (sint n),
                Value = Some 0,
                GasPrice = Some (sint (f64_to_int64 (\<lambda>x. 0x8000000000000000)
                                   (f64_mul (gasPriceGwei fl) f64_1e9))),
                GasLimit = gasLimit fl\<rparr>
      else (case SuggestGasPrice client of
              Inl err \<Rightarrow> Inl (FailedToSuggestGasPrice err)
            | Inr p \<Rightarrow>
                Inr \<lparr>From = 0x7E5F4552091A69125D5DFCB7B8C2659029395BDF, Nonce = Some (sint n),
                     Value = Some 0, GasPrice = Some p, GasLimit = gasLimit fl\<rparr>))"
proof -
  have addr: "PubkeyToAddress ex_lib \<lparr>X = fst ex_generator, Y = snd ex_generator\<rparr> =
      0x7E5F4552091A69125D5DFCB7B8C2659029395BDF"
    by (simp add: ex_lib_def ex_PubkeyToAddress_def)
  have unrep: "int64_unrepresentable ex_lib = (\<lambda>x. 0x8000000000000000)"
    by (simp add: ex_lib_def)
  show ?thesis
    using assms
    by (simp add: createTransactor_def ex_HexToECDSA Public_def PublicKey.truncate_def
        PublicKey.defs PrivateKey.defs
        NewKeyedTransactorWithChainID_def addr unrep Let_def split: sum.splits)
qed

lemma TrimPrefix_0x: "TrimPrefix (''0x'' @ k) ''0x'' = k"
  by (simp add: TrimPrefix_def HasPrefix_def)

lemma TrimPrefix_0x_Cons: "TrimPrefix (CHR ''0'' # CHR ''x'' # k) ''0x'' = k"
  using TrimPrefix_0x [of k] by simp

lemma TrimPrefix_none: "\<not> HasPrefix k ''0x'' \<Longrightarrow> TrimPrefix k ''0x'' = k"
  by (simp add: TrimPrefix_def)

lemma HasPrefix_ex_key: "\<not> HasPrefix ex_key ''0x''"
  by (simp add: HasPrefix_def ex_key_def)

lemma TrimPrefix_ex_key: "TrimPrefix ex_key ''0x'' = ex_key"
  by (simp add: TrimPrefix_none HasPrefix_ex_key)

lemma ex_client_simps:
  "PendingNonceAt ex_client a = Inr 7" "ChainID ex_client = Inr 1"
  "SuggestGasPrice ex_client = Inr 20000000000"
  by (simp_all add: ex_client_def)

lemma f64_5_gwei: "f64_mul (Finite 5 0) f64_1e9 = Finite 9765625 9"
  by code_simp

lemma f64_tiny_gwei: "f64_mul (Finite 1 (- 40)) f64_1e9 = Finite 1953125 (- 31)"
  by code_simp

text \<open>
  Claim C4 says that every authorization \<^verbatim>\<open>createTransactor\<close> returns has a gas price and
  a gas limit above zero. It is not so. With \<^verbatim>\<open>-gas 0\<close> the limit of the authorization
  is 0; and with \<^verbatim>\<open>-gasprice\<close> set to \<open>2 ^ -40\<close> gwei, which is above zero, the product
  with \<^verbatim>\<open>1e9\<close> is below 1 and its conversion to \<^verbatim>\<open>int64\<close> is the price 0.
\<close>

theorem createTransactor_gas_counterexample:
  "snd (createTransactor ex_lib (ex_flags\<lparr>gasLimit := 0\<rparr>) ex_key ex_client) =
     Inr \<lparr>From = 0x7E5F4552091A69125D5DFCB7B8C2659029395BDF, Nonce = Some 7, Value = Some 0,
          GasPrice = Some 20000000000, GasLimit = 0\<rparr> \<and>
   f64_gt0 (gasPriceGwei (ex_flags\<lparr>gasPriceGwei := Finite 1 (- 40)\<rparr>)) \<and>
   snd (createTransactor ex_lib (ex_flags\<lparr>gasPriceGwei := Finite 1 (- 40)\<rparr>) ex_key ex_client) =
     Inr \<lparr>From = 0x7E5F4552091A69125D5DFCB7B8C2659029395BDF, Nonce = Some 7, Value = Some 0,
          GasPrice = Some 0, GasLimit = 3000000\<rparr>"
proof (intro conjI)
  show "snd (createTransactor ex_lib (ex_flags\<lparr>gasLimit := 0\<rparr>) ex_key ex_client) =
     Inr \<lparr>From = 0x7E5F4552091A69125D5DFCB7B8C2659029395BDF, Nonce = Some 7, Value = Some 0,
          GasPrice = Some 20000000000, GasLimit = 0\<rparr>"
    by (simp add: ex_createTransactor [OF ex_client_simps(1) ex_client_simps(2) TrimPrefix_ex_key]
        ex_client_simps ex_flags_def f64_gt0_def)
  show "f64_gt0 (gasPriceGwei (ex_flags\<lparr>gasPriceGwei := Finite 1 (- 40)\<rparr>))"
    by (simp add: f64_gt0_def)
  show "snd (createTransactor ex_lib (ex_flags\<lparr>gasPriceGwei := Finite 1 (- 40)\<rparr>) ex_key ex_client) =
     Inr \<lparr>From = 0x7E5F4552091A69125D5DFCB7B8C2659029395BDF, Nonce = Some 7, Value = Some 0,
          GasPrice = Some 0, GasLimit = 3000000\<rparr>"
    by (simp add: ex_createTransactor [OF ex_client_simps(1) ex_client_simps(2) TrimPrefix_ex_key]
        ex_flags_def f64_gt0_def f64_tiny_gwei f64_to_int64_def f64_trunc_def)
qed

text \<open>
  Claim C4, amended. In every authorization \<^verbatim>\<open>createTransactor\<close> returns, the gas limit
  is the caller's \<^verbatim>\<open>-gas\<close> value, and the gas price is the caller's \<^verbatim>\<open>-gasprice\<close> times
  \<^verbatim>\<open>1e9\<close>, truncated to \<^verbatim>\<open>int64\<close>, when that flag is above zero, and the price the node
  suggests otherwise. Neither is checked: the limit is above zero exactly when the
  caller's is, and the price exactly when the converted or suggested price is.
\<close>

theorem createTransactor_gas_policy:
  assumes "snd (createTransactor l fl k client) = Inr auth"
  shows "GasLimit auth = gasLimit fl \<and>
    (0 < GasLimit auth \<longleftrightarrow> 0 < gasLimit fl) \<and>
    (f64_gt0 (gasPriceGwei fl) \<longrightarrow>
       GasPrice auth =
         Some (sint (f64_to_int64 (int64_unrepresentable l)
                       (f64_mul (gasPriceGwei fl) f64_1e9)))) \<and>
    (\<not> f64_gt0 (gasPriceGwei fl) \<longrightarrow>
       (\<exists>p. SuggestGasPrice client = Inr p \<and> GasPrice auth = Some p))"
  using createTransactor_Inr [OF assms] by (auto split: if_splits)

theorem createTransactor_gas_policy_witness:
  "snd (createTransactor ex_lib ex_flags ex_key ex_client) =
     Inr \<lparr>From = 0x7E5F4552091A69125D5DFCB7B8C2659029395BDF, Nonce = Some 7, Value = Some 0,
          GasPrice = Some 20000000000, GasLimit = 3000000\<rparr> \<and>
   GasLimit \<lparr>From = 0x7E5F4552091A69125D5DFCB7B8C2659029395BDF, Nonce = Some 7, Value = Some 0,
          GasPrice = Some 20000000000, GasLimit = 3000000\<rparr> = gasLimit ex_flags \<and>
   \<not> f64_gt0 (gasPriceGwei ex_flags) \<and>
   SuggestGasPrice ex_client = Inr 20000000000"
proof -
  have run: "snd (createTransactor ex_lib ex_flags ex_key ex_client) =
     Inr \<lparr>From = 0x7E5F4552091A69125D5DFCB7B8C2659029395BDF, Nonce = Some 7, Value = Some 0,
          GasPrice = Some 20000000000, GasLimit = 3000000\<rparr>"
    by (simp add: ex_createTransactor [OF ex_client_simps(1) ex_client_simps(2) TrimPrefix_ex_key]
        ex_client_simps ex_flags_def f64_gt0_def)
  have "\<not> f64_gt0 (gasPriceGwei ex_flags)"
    by (simp add: ex_flags_def f64_gt0_def)
  then show ?thesis
    using createTransactor_gas_policy [OF run] run by (simp add: ex_client_simps)
qed

text \<open>
  Claim C5. A caller-supplied gas price of 5 (gwei) is the price 5 000 000 000 (wei) in
  the authorization.
\<close>

theorem gas_price_gwei_to_wei:
  assumes "gasPriceGwei fl = Finite 5 0"
    and "snd (createTransactor l fl k client) = Inr auth"
  shows "GasPrice auth = Some 5000000000"
  using createTransactor_Inr [OF assms(2)] assms(1)
  by (auto simp: f64_gt0_def f64_5_gwei f64_to_int64_def f64_trunc_def)

theorem gas_price_gwei_to_wei_witness:
  "gasPriceGwei (ex_flags\<lparr>gasPriceGwei := Finite 5 0\<rparr>) = Finite 5 0 \<and>
   snd (createTransactor ex_lib (ex_flags\<lparr>gasPriceGwei := Finite 5 0\<rparr>) ex_key ex_client) =
     Inr \<lparr>From = 0x7E5F4552091A69125D5DFCB7B8C2659029395BDF, Nonce = Some 7, Value = Some 0,
          GasPrice = Some 5000000000, GasLimit = 3000000\<rparr>"
proof -
  have fl: "gasPriceGwei (ex_flags\<lparr>gasPriceGwei := Finite 5 0\<rparr>) = Finite 5 0"
    by simp
  have "\<exists>p. snd (createTransactor ex_lib (ex_flags\<lparr>gasPriceGwei := Finite 5 0\<rparr>) ex_key ex_client) =
     Inr \<lparr>From = 0x7E5F4552091A69125D5DFCB7B8C2659029395BDF, Nonce = Some 7, Value = Some 0,
          GasPrice = Some p, GasLimit = 3000000\<rparr>"
    by (simp add: ex_createTransactor [OF ex_client_simps(1) ex_client_simps(2) TrimPrefix_ex_key]
        ex_flags_def f64_gt0_def)
  then obtain p where run:
    "snd (createTransactor ex_lib (ex_flags\<lparr>gasPriceGwei := Finite 5 0\<rparr>) ex_key ex_client) =
     Inr \<lparr>From = 0x7E5F4552091A69125D5DFCB7B8C2659029395BDF, Nonce = Some 7, Value = Some 0,
          GasPrice = Some p, GasLimit = 3000000\<rparr>"
    by blast
  from gas_price_gwei_to_wei [OF fl run] have "p = 5000000000" by simp
  with run fl show ?thesis by simp
qed

text \<open>
  Claim C8 says that the authorization carries the fetched pending sequence number as
  its nonce. The code converts the \<^verbatim>\<open>uint64\<close> with \<^verbatim>\<open>int64(nonce)\<close> first, so when the node
  answers \<open>2 ^ 63\<close> the nonce of the authorization is \<open>- (2 ^ 63)\<close>. The other four fields
  are as the claim says.
\<close>

theorem createTransactor_nonce_wraps:
  "snd (createTransactor ex_lib ex_flags ex_key
         (ex_client\<lparr>PendingNonceAt := (\<lambda>a. Inr 0x8000000000000000)\<rparr>)) =
     Inr \<lparr>From = 0x7E5F4552091A69125D5DFCB7B8C2659029395BDF,
          Nonce = Some (- 9223372036854775808), Value = Some 0,
          GasPrice = Some 20000000000, GasLimit = 3000000\<rparr>"
proof -
  have n: "PendingNonceAt (ex_client\<lparr>PendingNonceAt := (\<lambda>a. Inr 0x8000000000000000)\<rparr>)
      0x7E5F4552091A69125D5DFCB7B8C2659029395BDF = Inr 0x8000000000000000"
    by simp
  have c: "ChainID (ex_client\<lparr>PendingNonceAt := (\<lambda>a. Inr 0x8000000000000000)\<rparr>) = Inr 1"
    by (simp add: ex_client_simps)
  show ?thesis
    by (simp add: ex_createTransactor [OF n c TrimPrefix_ex_key] ex_client_simps ex_flags_def
        f64_gt0_def)
qed

text \<open>
  What does hold of the fields: the sender is the address of the key, the value is zero,
  the gas limit is the caller's, and the nonce is the sequence number fetched whenever
  that number is below \<open>2 ^ 63\<close>.
\<close>

lemma createTransactor_fields:
  assumes "snd (createTransactor l fl k client) = Inr auth"
  shows "\<exists>key n.
     HexToECDSA l (TrimPrefix k ''0x'') = Inr key \<and>
     PendingNonceAt client (PubkeyToAddress l (PublicKey.truncate key)) = Inr n \<and>
     From auth = PubkeyToAddress l (PublicKey.truncate key) \<and>
     (unat n < 2 ^ 63 \<longrightarrow> Nonce auth = Some (int (unat n))) \<and>
     Value auth = Some 0 \<and>
     GasLimit auth = gasLimit fl"
proof -
  from createTransactor_Inr [OF assms] obtain key n where
    "HexToECDSA l (TrimPrefix k ''0x'') = Inr key"
    "PendingNonceAt client (PubkeyToAddress l (PublicKey.truncate key)) = Inr n"
    "From auth = PubkeyToAddress l (PublicKey.truncate key)"
    "Nonce auth = Some (sint n)" "Value auth = Some 0" "GasLimit auth = gasLimit fl"
    by blast
  moreover have "unat n < 2 ^ 63 \<Longrightarrow> sint n = int (unat n)"
    by (simp add: sint_64) (simp add: unat_eq_nat_uint del: nat_uint_eq)
  ultimately show ?thesis by auto
qed

text \<open>
  Claim C9 says that \<^verbatim>\<open>createTransactor\<close> answers the same for \<^verbatim>\<open>"0x" + k\<close> and for \<open>k\<close>,
  whatever the string \<open>k\<close>. It is not so when \<open>k\<close> itself starts with \<^verbatim>\<open>0x\<close>: one prefix is
  taken off, not two. For \<open>k\<close> the example key with the prefix, \<open>k\<close> is accepted and
  \<^verbatim>\<open>"0x" + k\<close> is refused.
\<close>

theorem createTransactor_prefix_counterexample:
  "snd (createTransactor ex_lib ex_flags (''0x'' @ (''0x'' @ ex_key)) ex_client) =
     Inl (InvalidPrivateKey (LibError ''invalid hex character in private key'')) \<and>
   snd (createTransactor ex_lib ex_flags (''0x'' @ ex_key) ex_client) =
     Inr \<lparr>From = 0x7E5F4552091A69125D5DFCB7B8C2659029395BDF, Nonce = Some 7, Value = Some 0,
          GasPrice = Some 20000000000, GasLimit = 3000000\<rparr>"
proof
  have "HexToECDSA ex_lib (''0x'' @ ex_key) =
      Inl (LibError ''invalid hex character in private key'')"
    by (simp add: ex_lib_def ex_key_def crypto_HexToECDSA_def fromHexChar_def)
  then show "snd (createTransactor ex_lib ex_flags (''0x'' @ (''0x'' @ ex_key)) ex_client) =
     Inl (InvalidPrivateKey (LibError ''invalid hex character in private key''))"
    by (simp add: createTransactor_def TrimPrefix_0x_Cons)
  show "snd (createTransactor ex_lib ex_flags (''0x'' @ ex_key) ex_client) =
     Inr \<lparr>From = 0x7E5F4552091A69125D5DFCB7B8C2659029395BDF, Nonce = Some 7, Value = Some 0,
          GasPrice = Some 20000000000, GasLimit = 3000000\<rparr>"
    by (simp add: ex_createTransactor [OF ex_client_simps(1) ex_client_simps(2) TrimPrefix_0x_Cons]
        ex_client_simps ex_flags_def f64_gt0_def)
qed

text \<open>
  Claim C9, amended. For every key string \<open>k\<close> that does not itself start with \<^verbatim>\<open>0x\<close>,
  \<^verbatim>\<open>createTransactor\<close> applied to \<^verbatim>\<open>"0x" + k\<close> makes the same calls and returns the same
  result (the same authorization or the same error) as applied to \<open>k\<close>.
\<close>

theorem createTransactor_prefix:
  assumes "\<not> HasPrefix k ''0x''"
  shows "createTransactor l fl (''0x'' @ k) client = createTransactor l fl k client"
  by (simp add: createTransactor_def TrimPrefix_0x_Cons TrimPrefix_none [OF assms])

theorem createTransactor_prefix_witness:
  "\<not> HasPrefix ex_key ''0x'' \<and>
   createTransactor ex_lib ex_flags (''0x'' @ ex_key) ex_client =
     createTransactor ex_lib ex_flags ex_key ex_client \<and>
   snd (createTransactor ex_lib ex_flags ex_key ex_client) =
     Inr \<lparr>From = 0x7E5F4552091A69125D5DFCB7B8C2659029395BDF, Nonce = Some 7, Value = Some 0,
          GasPrice = Some 20000000000, GasLimit = 3000000\<rparr>"
proof -
  have "snd (createTransactor ex_lib ex_flags ex_key ex_client) =
     Inr \<lparr>From = 0x7E5F4552091A69125D5DFCB7B8C2659029395BDF, Nonce = Some 7, Value = Some 0,
          GasPrice = Some 20000000000, GasLimit = 3000000\<rparr>"
    by (simp add: ex_createTransactor [OF ex_client_simps(1) ex_client_simps(2) TrimPrefix_ex_key]
        ex_client_simps ex_flags_def f64_gt0_def)
  then show ?thesis
    using createTransactor_prefix [OF HasPrefix_ex_key, of ex_lib ex_flags ex_client]
      HasPrefix_ex_key by simp
qed

text \<open>
  Claim C10. The pending sequence number, a \<^verbatim>\<open>uint64\<close>, goes through \<^verbatim>\<open>int64\<close> on its way
  into the authorization: for every sequence number \<open>n\<close> from \<open>2 ^ 63\<close> on, the nonce stored
  is \<open>n - 2 ^ 64\<close>, a negative number, and not \<open>n\<close>.
\<close>

theorem nonce_through_int64:
  assumes "snd (createTransactor l fl k client) = Inr auth"
    and "HexToECDSA l (TrimPrefix k ''0x'') = Inr key"
    and "PendingNonceAt client (PubkeyToAddress l (PublicKey.truncate key)) = Inr n"
    and "2 ^ 63 \<le> unat n"
  shows "Nonce auth = Some (int (unat n) - 2 ^ 64) \<and>
         int (unat n) - 2 ^ 64 < 0 \<and>
         Nonce auth \<noteq> Some (int (unat n))"
proof -
  from createTransactor_Inr [OF assms(1)] assms(2,3) have "Nonce auth = Some (sint n)"
    by auto
  moreover have "2 ^ 63 \<le> uint n"
    using assms(4) by (simp add: unat_eq_nat_uint del: nat_uint_eq)
  then have "sint n = int (unat n) - 2 ^ 64"
    by (simp add: sint_64)
  moreover have "int (unat n) < 2 ^ 64"
    using uint_bounded [of n] by simp
  ultimately show ?thesis by simp
qed

theorem nonce_through_int64_witness:
  "(2 :: nat) ^ 63 \<le> unat (0x8000000000000001 :: 64 word) \<and>
   snd (createTransactor ex_lib ex_flags ex_key
         (ex_client\<lparr>PendingNonceAt := (\<lambda>a. Inr 0x8000000000000001)\<rparr>)) =
     Inr \<lparr>From = 0x7E5F4552091A69125D5DFCB7B8C2659029395BDF,
          Nonce = Some (- 9223372036854775807), Value = Some 0,
          GasPrice = Some 20000000000, GasLimit = 3000000\<rparr>"
proof -
  let ?client = "ex_client\<lparr>PendingNonceAt := (\<lambda>a. Inr 0x8000000000000001)\<rparr>"
  have n: "PendingNonceAt ?client a = Inr 0x8000000000000001" for a
    by simp
  have c: "ChainID ?client = Inr 1"
    by (simp add: ex_client_simps)
  have "\<exists>v. snd (createTransactor ex_lib ex_flags ex_key ?client) =
     Inr \<lparr>From = 0x7E5F4552091A69125D5DFCB7B8C2659029395BDF,
          Nonce = v, Value = Some 0,
          GasPrice = Some 20000000000, GasLimit = 3000000\<rparr>"
    by (simp add: ex_createTransactor [OF n c TrimPrefix_ex_key] ex_client_simps ex_flags_def
        f64_gt0_def)
  then obtain v where run: "snd (createTransactor ex_lib ex_flags ex_key ?client) =
     Inr \<lparr>From = 0x7E5F4552091A69125D5DFCB7B8C2659029395BDF,
          Nonce = v, Value = Some 0,
          GasPrice = Some 20000000000, GasLimit = 3000000\<rparr>"
    by blast
  have key: "HexToECDSA ex_lib (TrimPrefix ex_key ''0x'') =
      Inr \<lparr>X = fst ex_generator, Y = snd ex_generator, D = 1\<rparr>"
    by (simp add: TrimPrefix_ex_key ex_HexToECDSA)
  have big: "(2 :: nat) ^ 63 \<le> unat (0x8000000000000001 :: 64 word)"
    by simp
  from nonce_through_int64 [OF run key n big] have "v = Some (- 9223372036854775807)"
    by simp
  with run big show ?thesis by simp
qed

section \<open>WaitMined with the background context\<close>

lemma WaitMined_from_Some:
  assumes "WaitMined_from c b tx t = Some y"
  shows "c = Background \<longrightarrow>
     (\<exists>n r. y = Inr r \<and> TransactionReceipt b (t + n) (Hash tx) = Inr r)"
proof (rule WaitMined_from.raw_induct
    [where P = "\<lambda>c b tx t y. c = Background \<longrightarrow>
       (\<exists>n r. y = Inr r \<and> TransactionReceipt b (t + n) (Hash tx) = Inr r)", OF _ assms])
  fix f c b tx t y
  assume IH: "\<And>c b tx t y. f c b tx t = Some y \<Longrightarrow> c = Background \<longrightarrow>
       (\<exists>n r. y = Inr r \<and> TransactionReceipt b (t + n) (Hash tx) = Inr r)"
    and step: "(case (if ctx_Done c t then Inl DeadlineExceeded
                      else TransactionReceipt b t (Hash tx)) of
        Inl err \<Rightarrow> if ctx_Done c t then Some (Inl DeadlineExceeded) else f c b tx (Suc t)
      | Inr receipt \<Rightarrow> Some (Inr receipt)) = Some y"
  show "c = Background \<longrightarrow>
     (\<exists>n r. y = Inr r \<and> TransactionReceipt b (t + n) (Hash tx) = Inr r)"
  proof
    assume bg: "c = Background"
    show "\<exists>n r. y = Inr r \<and> TransactionReceipt b (t + n) (Hash tx) = Inr r"
    proof (cases "TransactionReceipt b t (Hash tx)")
      case (Inr r)
      with step bg have "y = Inr r" by simp
      with Inr have "y = Inr r \<and> TransactionReceipt b (t + 0) (Hash tx) = Inr r" by simp
      then show ?thesis by blast
    next
      case (Inl err)
      with step bg have "f c b tx (Suc t) = Some y" by simp
      from IH [OF this] bg obtain n r where
        "y = Inr r" "TransactionReceipt b (Suc t + n) (Hash tx) = Inr r" by blast
      then have "y = Inr r \<and> TransactionReceipt b (t + Suc n) (Hash tx) = Inr r" by simp
      then show ?thesis by blast
    qed
  qed
qed

lemma WaitMined_from_found:
  assumes "TransactionReceipt b (t + n) (Hash tx) = Inr r"
  shows "\<exists>r'. WaitMined_from Background b tx t = Some (Inr r')"
  using assms
proof (induction n arbitrary: t)
  case 0
  then show ?case by (subst WaitMined_from.simps) simp
next
  case (Suc n)
  then have "TransactionReceipt b (Suc t + n) (Hash tx) = Inr r" by simp
  from Suc.IH [OF this] show ?case
    by (subst WaitMined_from.simps) (auto split: sum.splits)
qed

text \<open>The receipt returned is that of the first query that succeeds.\<close>

lemma WaitMined_from_first:
  assumes "TransactionReceipt b (t + n) (Hash tx) = Inr r"
    and "\<forall>m<n. isl (TransactionReceipt b (t + m) (Hash tx))"
  shows "WaitMined_from Background b tx t = Some (Inr r)"
  using assms
proof (induction n arbitrary: t)
  case 0
  then show ?case by (subst WaitMined_from.simps) simp
next
  case (Suc n)
  have now: "isl (TransactionReceipt b t (Hash tx))"
    using Suc.prems(2) [rule_format, of 0] by simp
  have later: "TransactionReceipt b (Suc t + n) (Hash tx) = Inr r"
    using Suc.prems(1) by simp
  have before: "\<forall>m<n. isl (TransactionReceipt b (Suc t + m) (Hash tx))"
  proof (intro allI impI)
    fix m
    assume "m < n"
    then show "isl (TransactionReceipt b (Suc t + m) (Hash tx))"
      using Suc.prems(2) [rule_format, of "Suc m"] by simp
  qed
  from Suc.IH [OF later before] now show ?case
    by (subst WaitMined_from.simps) (auto simp: isl_def)
qed

lemma WaitMined_Background_first:
  assumes "TransactionReceipt b t (Hash tx) = Inr r"
    and "\<forall>s<t. isl (TransactionReceipt b s (Hash tx))"
  shows "WaitMined Background b tx = Some (Inr r)"
  using WaitMined_from_first [of b 0 t tx r] assms by (simp add: WaitMined_def)

lemma WaitMined_Background_None:
  "WaitMined Background b tx = None \<longleftrightarrow> (\<forall>t. isl (TransactionReceipt b t (Hash tx)))"
proof
  assume none: "WaitMined Background b tx = None"
  show "\<forall>t. isl (TransactionReceipt b t (Hash tx))"
  proof
    fix t
    show "isl (TransactionReceipt b t (Hash tx))"
    proof (cases "TransactionReceipt b t (Hash tx)")
      case (Inl err)
      then show ?thesis by simp
    next
      case (Inr r)
      then have "TransactionReceipt b (0 + t) (Hash tx) = Inr r" by simp
      from WaitMined_from_found [OF this] none show ?thesis
        by (simp add: WaitMined_def)
    qed
  qed
next
  assume all: "\<forall>t. isl (TransactionReceipt b t (Hash tx))"
  show "WaitMined Background b tx = None"
  proof (cases "WaitMined Background b tx")
    case None
    then show ?thesis .
  next
    case (Some y)
    then have "WaitMined_from Background b tx 0 = Some y" by (simp add: WaitMined_def)
    from WaitMined_from_Some [OF this] obtain n r where
      "TransactionReceipt b n (Hash tx) = Inr r" by auto
    moreover have "isl (TransactionReceipt b n (Hash tx))" using all by blast
    ultimately show ?thesis by simp
  qed
qed

lemma WaitMined_Background_no_error: "WaitMined Background b tx \<noteq> Some (Inl e)"
proof
  assume "WaitMined Background b tx = Some (Inl e)"
  then have "WaitMined_from Background b tx 0 = Some (Inl e)" by (simp add: WaitMined_def)
  from WaitMined_from_Some [OF this] show False by auto
qed

text \<open>With a deadline the same loop always returns.\<close>

lemma WaitMined_from_deadline_returns:
  "\<exists>y. WaitMined_from (WithDeadline d) b tx t = Some y"
proof (induction "d - t" arbitrary: t)
  case 0
  then show ?case by (subst WaitMined_from.simps) (auto split: sum.splits)
next
  case (Suc m)
  then have "m = d - Suc t" by simp
  from Suc(1) [OF this] show ?case
    by (subst WaitMined_from.simps) (auto split: sum.splits)
qed

section \<open>main: the check of the flags\<close>

lemma promptForPrivateKey_events:
  "fst (promptForPrivateKey l w fl) = [Stdout PromptPrivateKey, StdinRead]"
  by (simp add: promptForPrivateKey_def Let_def split: sum.splits)

lemma main_flags_events:
  "set (fst (main_flags l w fl)) \<subseteq> {Stdout PromptPrivateKey, StdinRead}"
  using promptForPrivateKey_events [of l w fl]
  by (auto simp: main_flags_def split: prod.splits sum.splits if_splits)

lemma main_flags_absent:
  assumes "mandatory_absent l w fl"
  shows "snd (main_flags l w fl) = Inl FatalAllFlagsRequired \<or>
         (\<exists>e. stdin_ReadString w = Inl e \<and> snd (main_flags l w fl) = Inl (FatalReadPrivateKey e))"
  using assms
  by (auto simp: mandatory_absent_def secret_absent_def main_flags_def promptForPrivateKey_def
      Let_def split: sum.splits if_splits)

lemma main_flags_Inr:
  assumes "snd (main_flags l w fl) = Inr fl'"
  shows "\<not> mandatory_absent l w fl \<and> rpcURL fl' = rpcURL fl \<and> rpcURL fl' \<noteq> [] \<and>
         privateKey fl' \<noteq> [] \<and> tokenName fl' = tokenName fl \<and>
         tokenSymbol fl' = tokenSymbol fl \<and> totalSupply fl' = totalSupply fl \<and>
         tokenDecimals fl' = tokenDecimals fl"
  using assms
  by (auto simp: mandatory_absent_def secret_absent_def main_flags_def promptForPrivateKey_def
      Let_def split: sum.splits if_splits)

section \<open>main: from the connection to the receipt\<close>

lemma main_deploy_reaches_wait:
  assumes "Dial w (rpcURL fl) = Inr client"
    and "createTransactor l fl (privateKey fl) client = (evs1, Inr auth)"
    and "parseSupply (totalSupply fl) (ucast (tokenDecimals fl)) = Inr supply"
    and "DeployERC20Token w auth client (tokenName fl) (tokenSymbol fl)
           (ucast (tokenDecimals fl)) supply = Inr (addr, tx, instance)"
  shows "main_deploy l w fl =
     (NetDial (rpcURL fl) # evs1 @
        [NetDeploy (tokenName fl) (tokenSymbol fl) (ucast (tokenDecimals fl)) supply,
         Stdout DeploymentInitiated, Stdout (ContractAddress addr),
         Stdout (TransactionHash (Hash tx)), Stdout WaitingToBeMined, NetWaitMined (Hash tx)],
      (case WaitMined Background client tx of
         None \<Rightarrow> Inl Hangs
       | Some (Inl err) \<Rightarrow> Inl (Exited (FatalWaitMined err))
       | Some (Inr receipt) \<Rightarrow> Inr (receipt, instance)))"
  using assms by (simp add: main_deploy_def Let_def split: option.splits sum.splits)

lemma createTransactor_no_wait:
  "NetWaitMined h \<notin> set (fst (createTransactor l fl k client))"
  using createTransactor_events [of l fl k client] by auto

lemma main_deploy_wait_event:
  assumes "NetWaitMined h \<in> set (fst (main_deploy l w fl))"
  shows "\<exists>client evs1 auth supply addr tx instance.
     Dial w (rpcURL fl) = Inr client \<and>
     createTransactor l fl (privateKey fl) client = (evs1, Inr auth) \<and>
     parseSupply (totalSupply fl) (ucast (tokenDecimals fl)) = Inr supply \<and>
     DeployERC20Token w auth client (tokenName fl) (tokenSymbol fl)
       (ucast (tokenDecimals fl)) supply = Inr (addr, tx, instance) \<and>
     Hash tx = h"
proof (cases "Dial w (rpcURL fl)")
  case (Inl err)
  with assms show ?thesis by (simp add: main_deploy_def)
next
  case (Inr client)
  note dial = this
  obtain evs1 res where ct: "createTransactor l fl (privateKey fl) client = (evs1, res)"
    by (cases "createTransactor l fl (privateKey fl) client")
  have nw: "NetWaitMined h \<notin> set evs1"
    using createTransactor_no_wait [of h l fl "privateKey fl" client] ct by simp
  show ?thesis
  proof (cases res)
    case (Inl err)
    with assms dial ct nw show ?thesis by (simp add: main_deploy_def)
  next
    case (Inr auth)
    note auth = this
    show ?thesis
    proof (cases "parseSupply (totalSupply fl) (ucast (tokenDecimals fl))")
      case (Inl err)
      with assms dial ct nw auth show ?thesis by (simp add: main_deploy_def)
    next
      case (Inr amount)
      note amount = this
      show ?thesis
      proof (cases "DeployERC20Token w auth client (tokenName fl) (tokenSymbol fl) (ucast (tokenDecimals fl)) amount")
        case (Inl err)
        with assms dial ct nw auth amount show ?thesis by (simp add: main_deploy_def)
      next
        case (Inr triple)
        obtain addr tx inst where triple: "triple = (addr, tx, inst)"
          by (cases triple)
        from main_deploy_reaches_wait [OF dial ct [unfolded auth] amount Inr [unfolded triple]]
          assms nw
        have "Hash tx = h" by auto
        with dial ct auth amount Inr triple show ?thesis by blast
      qed
    qed
  qed
qed

lemma main_deploy_events_before_report:
  assumes "ev \<in> set (fst (main_deploy l w fl))"
  shows "\<not> is_verification ev \<and> ev \<noteq> Stdout DeploymentSuccessful \<and>
         ev \<noteq> Stdout DeploymentFailed \<and> ev \<noteq> NetClose"
proof (cases "Dial w (rpcURL fl)")
  case (Inl err)
  with assms show ?thesis by (simp add: main_deploy_def)
next
  case (Inr client)
  obtain evs1 res where ct: "createTransactor l fl (privateKey fl) client = (evs1, res)"
    by (cases "createTransactor l fl (privateKey fl) client")
  have "set evs1 \<subseteq> range NetPendingNonceAt \<union> {NetChainID, NetSuggestGasPrice}"
    using createTransactor_events [of l fl "privateKey fl" client] ct by simp
  then have "ev \<in> set evs1 \<Longrightarrow> ?thesis"
    by auto
  then show ?thesis
    using assms Inr ct
    by (auto simp: main_deploy_def Let_def split: sum.splits option.splits)
qed

lemma main_report_verification:
  "filter is_verification (main_report receipt inst) =
     (if Status receipt = 1 then [NetName, NetSymbol, NetDecimals] else [])"
  by (simp add: main_report_def split: sum.splits)

lemma main_report_successful:
  "Stdout DeploymentSuccessful \<in> set (main_report receipt inst) \<longleftrightarrow> Status receipt = 1"
  by (simp add: main_report_def split: sum.splits)

lemma main_report_failed:
  "Stdout DeploymentFailed \<in> set (main_report receipt inst) \<longleftrightarrow> Status receipt \<noteq> 1"
  by (simp add: main_report_def split: sum.splits)

lemma main_report_no_wait: "NetWaitMined h \<notin> set (main_report receipt inst)"
  by (simp add: main_report_def split: sum.splits)

lemma main_mined:
  assumes "main_flags l w fl0 = (evs0, Inr fl)"
    and "main_deploy l w fl = (evs1, Inr (receipt, inst))"
  shows "main l w fl0 = (evs0 @ evs1 @ main_report receipt inst @ [NetClose], Returned)"
  using assms by (simp add: main_def)

text \<open>
  Claim C7. When the URL, the secret, the name, the symbol or the supply is absent,
  \<^verbatim>\<open>main\<close> ends with a fatal log message (the one that asks for all flags, or, when the
  prompt cannot read standard input, the one about the read) and no event of the run
  goes to the network: nothing is dialled before the flags have passed the check.
\<close>

theorem missing_parameter_is_fatal:
  assumes "mandatory_absent l w fl"
  shows "(snd (main l w fl) = Exited FatalAllFlagsRequired \<or>
          (\<exists>e. stdin_ReadString w = Inl e \<and> snd (main l w fl) = Exited (FatalReadPrivateKey e))) \<and>
         filter is_network (fst (main l w fl)) = []"
proof -
  obtain evs0 r0 where mf: "main_flags l w fl = (evs0, r0)"
    by (cases "main_flags l w fl")
  from main_flags_absent [OF assms] mf obtain f where r0: "r0 = Inl f"
    and f: "f = FatalAllFlagsRequired \<or> (\<exists>e. stdin_ReadString w = Inl e \<and> f = FatalReadPrivateKey e)"
    by auto
  from mf r0 have run: "main l w fl = (evs0, Exited f)"
    by (simp add: main_def)
  have "set evs0 \<subseteq> {Stdout PromptPrivateKey, StdinRead}"
    using main_flags_events [of l w fl] mf by simp
  then have "filter is_network evs0 = []"
    by (auto simp: filter_empty_conv)
  with run f show ?thesis by auto
qed

lemma ex_TrimSpace_blank: "TrimSpace ex_lib [CHR 0x0A] = []"
  by (simp add: ex_lib_def ascii_TrimSpace_def ascii_space_def)

theorem missing_parameter_is_fatal_witness:
  "mandatory_absent ex_lib ex_world (ex_flags\<lparr>privateKey := []\<rparr>) \<and>
   main ex_lib ex_world (ex_flags\<lparr>privateKey := []\<rparr>) =
     ([Stdout PromptPrivateKey, StdinRead], Exited FatalAllFlagsRequired) \<and>
   filter is_network (fst (main ex_lib ex_world (ex_flags\<lparr>privateKey := []\<rparr>))) = []"
proof -
  have absent: "mandatory_absent ex_lib ex_world (ex_flags\<lparr>privateKey := []\<rparr>)"
    by (simp add: mandatory_absent_def secret_absent_def ex_world_def ex_TrimSpace_blank)
  have run: "main ex_lib ex_world (ex_flags\<lparr>privateKey := []\<rparr>) =
     ([Stdout PromptPrivateKey, StdinRead], Exited FatalAllFlagsRequired)"
    by (simp add: main_def main_flags_def promptForPrivateKey_def ex_world_def
        ex_TrimSpace_blank ex_flags_def)
  from missing_parameter_is_fatal [OF absent] absent run show ?thesis by simp
qed

text \<open>
  Claim C6. Once a receipt has been mined, \<^verbatim>\<open>main\<close> returns normally whatever the three
  verification calls answer. With status 1 (success) the run prints the success line and
  makes exactly the three calls \<^verbatim>\<open>Name\<close>, \<^verbatim>\<open>Symbol\<close>, \<^verbatim>\<open>Decimals\<close>, in this order; with any
  other status (failure is 0) it prints the failure line and makes none of them.
\<close>

theorem report_after_mining:
  assumes "snd (main_flags l w fl0) = Inr fl"
    and "snd (main_deploy l w fl) = Inr (receipt, inst)"
  shows "snd (main l w fl0) = Returned \<and>
    (Status receipt = 1 \<longrightarrow>
       filter is_verification (fst (main l w fl0)) = [NetName, NetSymbol, NetDecimals] \<and>
       Stdout DeploymentSuccessful \<in> set (fst (main l w fl0)) \<and>
       Stdout DeploymentFailed \<notin> set (fst (main l w fl0))) \<and>
    (Status receipt \<noteq> 1 \<longrightarrow>
       filter is_verification (fst (main l w fl0)) = [] \<and>
       Stdout DeploymentFailed \<in> set (fst (main l w fl0)) \<and>
       Stdout DeploymentSuccessful \<notin> set (fst (main l w fl0)))"
proof -
  obtain evs0 where mf: "main_flags l w fl0 = (evs0, Inr fl)"
    using assms(1) by (cases "main_flags l w fl0") simp
  obtain evs1 where md: "main_deploy l w fl = (evs1, Inr (receipt, inst))"
    using assms(2) by (cases "main_deploy l w fl") simp
  note run = main_mined [OF mf md]
  have e0: "set evs0 \<subseteq> {Stdout PromptPrivateKey, StdinRead}"
    using main_flags_events [of l w fl0] mf by simp
  have e1: "\<And>ev. ev \<in> set evs1 \<Longrightarrow>
      \<not> is_verification ev \<and> ev \<noteq> Stdout DeploymentSuccessful \<and>
      ev \<noteq> Stdout DeploymentFailed \<and> ev \<noteq> NetClose"
    using main_deploy_events_before_report [of _ l w fl] md by simp
  have f0: "filter is_verification evs0 = []"
    using e0 by (auto simp: filter_empty_conv)
  have f1: "filter is_verification evs1 = []"
    using e1 by (auto simp: filter_empty_conv)
  have s0: "Stdout DeploymentSuccessful \<notin> set evs0" "Stdout DeploymentFailed \<notin> set evs0"
    using e0 by auto
  have s1: "Stdout DeploymentSuccessful \<notin> set evs1" "Stdout DeploymentFailed \<notin> set evs1"
    using e1 by auto
  show ?thesis
    by (simp add: run f0 f1 s0 s1 main_report_verification main_report_successful
        main_report_failed)
qed

section \<open>The example runs\<close>

lemma ex_createTransactor_run:
  assumes "PendingNonceAt client 0x7E5F4552091A69125D5DFCB7B8C2659029395BDF = Inr n"
    and "ChainID client = Inr c"
    and "SuggestGasPrice client = Inr p"
    and "TrimPrefix k ''0x'' = ex_key"
    and "\<not> f64_gt0 (gasPriceGwei fl)"
  shows "createTransactor ex_lib fl k client =
     ([NetPendingNonceAt 0x7E5F4552091A69125D5DFCB7B8C2659029395BDF, NetChainID,
       NetSuggestGasPrice],
      Inr \<lparr>From = 0x7E5F4552091A69125D5DFCB7B8C2659029395BDF, Nonce = Some (sint n),
           Value = Some 0, GasPrice = Some p, GasLimit = gasLimit fl\<rparr>)"
proof -
  have addr: "PubkeyToAddress ex_lib \<lparr>X = fst ex_generator, Y = snd ex_generator\<rparr> =
      0x7E5F4552091A69125D5DFCB7B8C2659029395BDF"
    by (simp add: ex_lib_def ex_PubkeyToAddress_def)
  show ?thesis
    using assms
    by (simp add: createTransactor_def ex_HexToECDSA Public_def PublicKey.truncate_def
        PublicKey.defs PrivateKey.defs NewKeyedTransactorWithChainID_def addr Let_def)
qed

lemma ex_main_flags: "main_flags l w ex_flags = ([], Inr ex_flags)"
  by (simp add: main_flags_def ex_flags_def ex_key_def)

lemma ex_parseSupply: "parseSupply (totalSupply ex_flags) (ucast (tokenDecimals ex_flags)) =
    Inr 1000000000000000000000"
proof -
  have "decimal_string (strip_sign ''1000'')"
    by (simp add: strip_sign_def decimal_string_def is_digit_def)
  then show ?thesis
    by (simp add: ex_flags_def parseSupply_eq signed_value_def strip_sign_def)
qed

lemma ex_flags_simps:
  "rpcURL ex_flags = ''http://localhost:8545''" "privateKey ex_flags = ex_key"
  "tokenName ex_flags = ''TestCoin''" "tokenSymbol ex_flags = ''TST''"
  "ucast (tokenDecimals ex_flags) = (18 :: 8 word)" "gasLimit ex_flags = 3000000"
  "\<not> f64_gt0 (gasPriceGwei ex_flags)"
  by (simp_all add: ex_flags_def f64_gt0_def)

text \<open>
  The run of the example flags up to the wait, for a node that answers the first
  queries as the example node does.
\<close>

lemma ex_main_deploy:
  assumes "Dial w ''http://localhost:8545'' = Inr client"
    and "PendingNonceAt client 0x7E5F4552091A69125D5DFCB7B8C2659029395BDF = Inr 7"
    and "ChainID client = Inr 1"
    and "SuggestGasPrice client = Inr 20000000000"
    and "DeployERC20Token w
           \<lparr>From = 0x7E5F4552091A69125D5DFCB7B8C2659029395BDF, Nonce = Some 7,
            Value = Some 0, GasPrice = Some 20000000000, GasLimit = 3000000\<rparr>
           client ''TestCoin'' ''TST'' 18 1000000000000000000000 = Inr (addr, tx, inst)"
  shows "main_deploy ex_lib w ex_flags =
     ([NetDial ''http://localhost:8545'',
       NetPendingNonceAt 0x7E5F4552091A69125D5DFCB7B8C2659029395BDF, NetChainID,
       NetSuggestGasPrice,
       NetDeploy ''TestCoin'' ''TST'' 18 1000000000000000000000,
       Stdout DeploymentInitiated, Stdout (ContractAddress addr),
       Stdout (TransactionHash (Hash tx)), Stdout WaitingToBeMined, NetWaitMined (Hash tx)],
      (case WaitMined Background client tx of
         None \<Rightarrow> Inl Hangs
       | Some (Inl err) \<Rightarrow> Inl (Exited (FatalWaitMined err))
       | Some (Inr receipt) \<Rightarrow> Inr (receipt, inst)))"
proof -
  have ct: "createTransactor ex_lib ex_flags (privateKey ex_flags) client =
     ([NetPendingNonceAt 0x7E5F4552091A69125D5DFCB7B8C2659029395BDF, NetChainID,
       NetSuggestGasPrice],
      Inr \<lparr>From = 0x7E5F4552091A69125D5DFCB7B8C2659029395BDF, Nonce = Some 7,
           Value = Some 0, GasPrice = Some 20000000000, GasLimit = 3000000\<rparr>)"
    using ex_createTransactor_run [OF assms(2) assms(3) assms(4) TrimPrefix_ex_key
        ex_flags_simps(7)]
    by (simp add: ex_flags_simps)
  have dial: "Dial w (rpcURL ex_flags) = Inr client"
    using assms(1) by (simp add: ex_flags_simps)
  have dep: "DeployERC20Token w
           \<lparr>From = 0x7E5F4552091A69125D5DFCB7B8C2659029395BDF, Nonce = Some 7,
            Value = Some 0, GasPrice = Some 20000000000, GasLimit = 3000000\<rparr>
           client (tokenName ex_flags) (tokenSymbol ex_flags) (ucast (tokenDecimals ex_flags))
           1000000000000000000000 = Inr (addr, tx, inst)"
    using assms(5) by (simp add: ex_flags_simps)
  show ?thesis
    using main_deploy_reaches_wait [OF dial ct ex_parseSupply dep]
    by (simp add: ex_flags_simps)
qed

lemma ex_WaitMined:
  "WaitMined Background ex_client tx = Some (Inr \<lparr>Status = 1, GasUsed = 1234567\<rparr>)"
  unfolding WaitMined_def
  apply (subst WaitMined_from.simps, simp add: ex_client_def)
  apply (subst WaitMined_from.simps, simp add: ex_client_def)
  apply (subst WaitMined_from.simps, simp add: ex_client_def)
  apply (subst WaitMined_from.simps, simp add: ex_client_def)
  done

lemma ex_WaitMined_reverted:
  "WaitMined Background ex_client_reverted tx = Some (Inr \<lparr>Status = 0, GasUsed = 3000000\<rparr>)"
  unfolding WaitMined_def
  by (subst WaitMined_from.simps) (simp add: ex_client_reverted_def)

lemma ex_WaitMined_partitioned: "WaitMined Background ex_client_partitioned tx = None"
  by (simp add: WaitMined_Background_None ex_client_partitioned_def)

text \<open>
  The whole run of the example: name \<^verbatim>\<open>TestCoin\<close>, symbol \<^verbatim>\<open>TST\<close>, 18 decimals and the
  supply \<^verbatim>\<open>1000\<close>, on a node that mines the transaction with success. One deployment is
  sent, with the supply \<open>1000 * 10 ^ 18\<close>, and the report names the address, the hash, the
  gas used and the three values read back.
\<close>

lemma ex_main_run:
  "main ex_lib ex_world ex_flags =
     ([NetDial ''http://localhost:8545'',
       NetPendingNonceAt 0x7E5F4552091A69125D5DFCB7B8C2659029395BDF, NetChainID,
       NetSuggestGasPrice,
       NetDeploy ''TestCoin'' ''TST'' 18 (1000 * 10 ^ 18),
       Stdout DeploymentInitiated,
       Stdout (ContractAddress 0xF2E246BB76DF876CEF8B38AE84130F4F55DE395B),
       Stdout (TransactionHash 0xABCD), Stdout WaitingToBeMined, NetWaitMined 0xABCD,
       Stdout DeploymentSuccessful, Stdout (GasUsedLine 1234567),
       NetName, Stdout (TokenNameLine ''TestCoin''),
       NetSymbol, Stdout (TokenSymbolLine ''TST''),
       NetDecimals, Stdout (TokenDecimalsLine 18),
       NetClose],
      Returned)"
proof -
  have "main_deploy ex_lib ex_world ex_flags =
     ([NetDial ''http://localhost:8545'',
       NetPendingNonceAt 0x7E5F4552091A69125D5DFCB7B8C2659029395BDF, NetChainID,
       NetSuggestGasPrice,
       NetDeploy ''TestCoin'' ''TST'' 18 1000000000000000000000,
       Stdout DeploymentInitiated,
       Stdout (ContractAddress 0xF2E246BB76DF876CEF8B38AE84130F4F55DE395B),
       Stdout (TransactionHash 0xABCD), Stdout WaitingToBeMined, NetWaitMined 0xABCD],
      Inr (\<lparr>Status = 1, GasUsed = 1234567\<rparr>, ex_instance))"
    by (subst ex_main_deploy [where client = ex_client
        and addr = "0xF2E246BB76DF876CEF8B38AE84130F4F55DE395B" and tx = "\<lparr>Hash = 0xABCD\<rparr>"
        and inst = "ex_instance"])
      (simp_all add: ex_world_def ex_client_simps ex_WaitMined)
  then show ?thesis
    by (simp add: main_def ex_main_flags main_report_def ex_instance_def)
qed

theorem report_after_mining_witness:
  "snd (main_flags ex_lib ex_world_symbol_fails ex_flags) = Inr ex_flags \<and>
   snd (main_deploy ex_lib ex_world_symbol_fails ex_flags) =
     Inr (\<lparr>Status = 1, GasUsed = 1234567\<rparr>,
          ex_instance\<lparr>Symbol := Inl (LibError ''execution reverted'')\<rparr>) \<and>
   snd (main ex_lib ex_world_symbol_fails ex_flags) = Returned \<and>
   filter is_verification (fst (main ex_lib ex_world_symbol_fails ex_flags)) =
     [NetName, NetSymbol, NetDecimals] \<and>
   snd (main_flags ex_lib ex_world_reverted ex_flags) = Inr ex_flags \<and>
   snd (main_deploy ex_lib ex_world_reverted ex_flags) =
     Inr (\<lparr>Status = 0, GasUsed = 3000000\<rparr>, ex_instance) \<and>
   snd (main ex_lib ex_world_reverted ex_flags) = Returned \<and>
   filter is_verification (fst (main ex_lib ex_world_reverted ex_flags)) = []"
proof -
  have flags: "snd (main_flags ex_lib w ex_flags) = Inr ex_flags" for w
    by (simp add: ex_main_flags)
  have mined1: "snd (main_deploy ex_lib ex_world_symbol_fails ex_flags) =
     Inr (\<lparr>Status = 1, GasUsed = 1234567\<rparr>,
          ex_instance\<lparr>Symbol := Inl (LibError ''execution reverted'')\<rparr>)"
    by (subst ex_main_deploy [where client = ex_client
        and addr = "0xF2E246BB76DF876CEF8B38AE84130F4F55DE395B" and tx = "\<lparr>Hash = 0xABCD\<rparr>"
        and inst = "ex_instance\<lparr>Symbol := Inl (LibError ''execution reverted'')\<rparr>"])
      (simp_all add: ex_world_symbol_fails_def ex_world_def ex_client_simps ex_WaitMined)
  have mined0: "snd (main_deploy ex_lib ex_world_reverted ex_flags) =
     Inr (\<lparr>Status = 0, GasUsed = 3000000\<rparr>, ex_instance)"
    by (subst ex_main_deploy [where client = ex_client_reverted
        and addr = "0xF2E246BB76DF876CEF8B38AE84130F4F55DE395B" and tx = "\<lparr>Hash = 0xABCD\<rparr>"
        and inst = "ex_instance"])
      (simp_all add: ex_world_reverted_def ex_world_def ex_client_reverted_def ex_client_simps
        ex_WaitMined_reverted [unfolded ex_client_reverted_def])
  from report_after_mining [OF flags mined1] report_after_mining [OF flags mined0]
    flags mined1 mined0
  show ?thesis by simp
qed

text \<open>
  Claim C3 says that the wait for the receipt is bounded by a deadline or a cancellation
  and ends in a timeout failure when no receipt arrives in time. It is not so: the wait
  runs with \<^verbatim>\<open>context.Background()\<close>, and with a node that never has the receipt the run
  of the example flags stops at the wait and never returns.
\<close>

theorem wait_partition_counterexample:
  "main ex_lib ex_world_partitioned ex_flags =
     ([NetDial ''http://localhost:8545'',
       NetPendingNonceAt 0x7E5F4552091A69125D5DFCB7B8C2659029395BDF, NetChainID,
       NetSuggestGasPrice,
       NetDeploy ''TestCoin'' ''TST'' 18 1000000000000000000000,
       Stdout DeploymentInitiated,
       Stdout (ContractAddress 0xF2E246BB76DF876CEF8B38AE84130F4F55DE395B),
       Stdout (TransactionHash 0xABCD), Stdout WaitingToBeMined, NetWaitMined 0xABCD],
      Hangs)"
proof -
  have "main_deploy ex_lib ex_world_partitioned ex_flags =
     ([NetDial ''http://localhost:8545'',
       NetPendingNonceAt 0x7E5F4552091A69125D5DFCB7B8C2659029395BDF, NetChainID,
       NetSuggestGasPrice,
       NetDeploy ''TestCoin'' ''TST'' 18 1000000000000000000000,
       Stdout DeploymentInitiated,
       Stdout (ContractAddress 0xF2E246BB76DF876CEF8B38AE84130F4F55DE395B),
       Stdout (TransactionHash 0xABCD), Stdout WaitingToBeMined, NetWaitMined 0xABCD],
      Inl Hangs)"
    by (subst ex_main_deploy [where client = ex_client_partitioned
        and addr = "0xF2E246BB76DF876CEF8B38AE84130F4F55DE395B" and tx = "\<lparr>Hash = 0xABCD\<rparr>"
        and inst = "ex_instance"])
      (simp_all add: ex_world_partitioned_def ex_world_def ex_client_partitioned_def
        ex_client_simps ex_WaitMined_partitioned [unfolded ex_client_partitioned_def])
  then show ?thesis
    by (simp add: main_def ex_main_flags)
qed

text \<open>
  Claim C3, amended. The wait for the receipt has no deadline and no cancellation: it
  runs with the background context. Once a run has begun to wait for the transaction
  \<open>h\<close>, it never ends with a failure of the wait (so with no timeout); it hangs at the
  wait exactly when no query for the receipt of \<open>h\<close> ever succeeds; and when a query
  succeeds, the run goes on from the wait straight to the report of the receipt of the
  first query that succeeded, on the contract the deployment returned, and returns.
\<close>

theorem wait_has_no_deadline:
  assumes "NetWaitMined h \<in> set (fst (main l w fl))"
    and "Dial w (rpcURL fl) = Inr client"
  shows "(snd (main l w fl) = Hangs \<longleftrightarrow> (\<forall>t. isl (TransactionReceipt client t h))) \<and>
         (\<forall>e. snd (main l w fl) \<noteq> Exited (FatalWaitMined e)) \<and>
         (\<forall>t receipt.
            TransactionReceipt client t h = Inr receipt \<and>
            (\<forall>s<t. isl (TransactionReceipt client s h)) \<longrightarrow>
            snd (main l w fl) = Returned \<and>
            (\<exists>pre auth amount addr tx inst.
               DeployERC20Token w auth client (tokenName fl) (tokenSymbol fl)
                 (ucast (tokenDecimals fl)) amount = Inr (addr, tx, inst) \<and>
               Hash tx = h \<and>
               fst (main l w fl) =
                 pre @ NetWaitMined h # main_report receipt inst @ [NetClose]))"
proof -
  obtain evs0 r0 where mf: "main_flags l w fl = (evs0, r0)"
    by (cases "main_flags l w fl")
  have e0: "NetWaitMined h \<notin> set evs0"
    using main_flags_events [of l w fl] mf by auto
  obtain fl' where r0: "r0 = Inr fl'"
    using assms(1) mf e0 by (cases r0) (simp_all add: main_def)
  have same: "rpcURL fl' = rpcURL fl" "tokenName fl' = tokenName fl"
    "tokenSymbol fl' = tokenSymbol fl" "tokenDecimals fl' = tokenDecimals fl"
    using main_flags_Inr [of l w fl fl'] mf r0 by simp_all
  note url = same(1)
  obtain evs1 r1 where md: "main_deploy l w fl' = (evs1, r1)"
    by (cases "main_deploy l w fl'")
  have "NetWaitMined h \<in> set evs1"
    using assms(1) mf r0 md e0 main_report_no_wait
    by (auto simp: main_def split: sum.splits prod.splits)
  then have "NetWaitMined h \<in> set (fst (main_deploy l w fl'))"
    using md by simp
  from main_deploy_wait_event [OF this] assms(2) url
  obtain evs auth amount addr tx inst where
    ct: "createTransactor l fl' (privateKey fl') client = (evs, Inr auth)" and
    ps: "parseSupply (totalSupply fl') (ucast (tokenDecimals fl')) = Inr amount" and
    dep: "DeployERC20Token w auth client (tokenName fl') (tokenSymbol fl')
       (ucast (tokenDecimals fl')) amount = Inr (addr, tx, inst)" and
    h: "Hash tx = h"
    by auto
  have dial: "Dial w (rpcURL fl') = Inr client"
    using assms(2) url by simp
  note reach = main_deploy_reaches_wait [OF dial ct ps dep]
  have evs1: "evs1 =
     (NetDial (rpcURL fl') # evs @
        [NetDeploy (tokenName fl') (tokenSymbol fl') (ucast (tokenDecimals fl')) amount,
         Stdout DeploymentInitiated, Stdout (ContractAddress addr),
         Stdout (TransactionHash (Hash tx)), Stdout WaitingToBeMined]) @
     [NetWaitMined h]"
    using reach md h by simp
  have r1: "r1 = (case WaitMined Background client tx of
         None \<Rightarrow> Inl Hangs
       | Some (Inl err) \<Rightarrow> Inl (Exited (FatalWaitMined err))
       | Some (Inr receipt) \<Rightarrow> Inr (receipt, inst))"
    using reach md by simp
  have first: "snd (main l w fl) = Returned \<and>
      (\<exists>pre auth amount addr tx inst.
         DeployERC20Token w auth client (tokenName fl) (tokenSymbol fl)
           (ucast (tokenDecimals fl)) amount = Inr (addr, tx, inst) \<and>
         Hash tx = h \<and>
         fst (main l w fl) = pre @ NetWaitMined h # main_report receipt inst @ [NetClose])"
    if q: "TransactionReceipt client t h = Inr receipt"
      and before: "\<forall>s<t. isl (TransactionReceipt client s h)"
    for t receipt
  proof -
    have "WaitMined Background client tx = Some (Inr receipt)"
      using WaitMined_Background_first [of client t tx receipt] q before h by simp
    then have run: "main l w fl = (evs0 @ evs1 @ main_report receipt inst @ [NetClose], Returned)"
      using mf r0 md r1 by (simp add: main_def)
    let ?pre = "evs0 @ NetDial (rpcURL fl') # evs @
          [NetDeploy (tokenName fl') (tokenSymbol fl') (ucast (tokenDecimals fl')) amount,
           Stdout DeploymentInitiated, Stdout (ContractAddress addr),
           Stdout (TransactionHash (Hash tx)), Stdout WaitingToBeMined]"
    have trace: "fst (main l w fl) =
        ?pre @ NetWaitMined h # main_report receipt inst @ [NetClose]"
      by (simp add: run evs1)
    have deployed: "DeployERC20Token w auth client (tokenName fl) (tokenSymbol fl)
           (ucast (tokenDecimals fl)) amount = Inr (addr, tx, inst)"
      using dep same by simp
    have "snd (main l w fl) = Returned"
      by (simp add: run)
    moreover have "\<exists>pre auth amount addr tx inst.
         DeployERC20Token w auth client (tokenName fl) (tokenSymbol fl)
           (ucast (tokenDecimals fl)) amount = Inr (addr, tx, inst) \<and>
         Hash tx = h \<and>
         fst (main l w fl) = pre @ NetWaitMined h # main_report receipt inst @ [NetClose]"
      using deployed h trace by blast
    ultimately show ?thesis by simp
  qed
  have rest: "(snd (main l w fl) = Hangs \<longleftrightarrow> (\<forall>t. isl (TransactionReceipt client t h))) \<and>
         (\<forall>e. snd (main l w fl) \<noteq> Exited (FatalWaitMined e))"
  proof (cases "WaitMined Background client tx")
    case None
    then have "snd (main l w fl) = Hangs"
      using mf r0 md r1 by (simp add: main_def)
    moreover have "\<forall>t. isl (TransactionReceipt client t h)"
      using None h by (simp add: WaitMined_Background_None)
    ultimately show ?thesis by simp
  next
    case (Some y)
    then obtain receipt where y: "y = Inr receipt"
      using WaitMined_Background_no_error [of client tx] by (cases y) auto
    then have "snd (main l w fl) = Returned"
      using mf r0 md r1 Some by (simp add: main_def)
    moreover have "\<not> (\<forall>t. isl (TransactionReceipt client t h))"
      using Some h WaitMined_Background_None [of client tx] by simp
    ultimately show ?thesis by simp
  qed
  from rest first show ?thesis by blast
qed

theorem wait_has_no_deadline_witness:
  "NetWaitMined 0xABCD \<in> set (fst (main ex_lib ex_world ex_flags)) \<and>
   Dial ex_world (rpcURL ex_flags) = Inr ex_client \<and>
   TransactionReceipt ex_client 3 0xABCD = Inr \<lparr>Status = 1, GasUsed = 1234567\<rparr> \<and>
   isl (TransactionReceipt ex_client 0 0xABCD) \<and>
   isl (TransactionReceipt ex_client 1 0xABCD) \<and>
   isl (TransactionReceipt ex_client 2 0xABCD) \<and>
   snd (main ex_lib ex_world ex_flags) = Returned \<and>
   NetWaitMined 0xABCD \<in> set (fst (main ex_lib ex_world_partitioned ex_flags)) \<and>
   Dial ex_world_partitioned (rpcURL ex_flags) = Inr ex_client_partitioned \<and>
   snd (main ex_lib ex_world_partitioned ex_flags) = Hangs"
proof -
  have md: "main_deploy ex_lib ex_world ex_flags =
     ([NetDial ''http://localhost:8545'',
       NetPendingNonceAt 0x7E5F4552091A69125D5DFCB7B8C2659029395BDF, NetChainID,
       NetSuggestGasPrice,
       NetDeploy ''TestCoin'' ''TST'' 18 1000000000000000000000,
       Stdout DeploymentInitiated,
       Stdout (ContractAddress 0xF2E246BB76DF876CEF8B38AE84130F4F55DE395B),
       Stdout (TransactionHash 0xABCD), Stdout WaitingToBeMined, NetWaitMined 0xABCD],
      Inr (\<lparr>Status = 1, GasUsed = 1234567\<rparr>, ex_instance))"
    by (subst ex_main_deploy [where client = ex_client
        and addr = "0xF2E246BB76DF876CEF8B38AE84130F4F55DE395B" and tx = "\<lparr>Hash = 0xABCD\<rparr>"
        and inst = "ex_instance"])
      (simp_all add: ex_world_def ex_client_simps ex_WaitMined)
  have ev: "NetWaitMined 0xABCD \<in> set (fst (main ex_lib ex_world ex_flags))"
    by (simp add: main_def ex_main_flags md)
  have dial: "Dial ex_world (rpcURL ex_flags) = Inr ex_client"
    by (simp add: ex_world_def)
  have poll: "TransactionReceipt ex_client 3 0xABCD = Inr \<lparr>Status = 1, GasUsed = 1234567\<rparr>"
    by (simp add: ex_client_def)
  have early: "isl (TransactionReceipt ex_client s 0xABCD)" if "s < 3" for s
    using that by (simp add: ex_client_def)
  have md': "main_deploy ex_lib ex_world_partitioned ex_flags =
     ([NetDial ''http://localhost:8545'',
       NetPendingNonceAt 0x7E5F4552091A69125D5DFCB7B8C2659029395BDF, NetChainID,
       NetSuggestGasPrice,
       NetDeploy ''TestCoin'' ''TST'' 18 1000000000000000000000,
       Stdout DeploymentInitiated,
       Stdout (ContractAddress 0xF2E246BB76DF876CEF8B38AE84130F4F55DE395B),
       Stdout (TransactionHash 0xABCD), Stdout WaitingToBeMined, NetWaitMined 0xABCD],
      Inl Hangs)"
    by (subst ex_main_deploy [where client = ex_client_partitioned
        and addr = "0xF2E246BB76DF876CEF8B38AE84130F4F55DE395B" and tx = "\<lparr>Hash = 0xABCD\<rparr>"
        and inst = "ex_instance"])
      (simp_all add: ex_world_partitioned_def ex_world_def ex_client_partitioned_def
        ex_client_simps ex_WaitMined_partitioned [unfolded ex_client_partitioned_def])
  have ev': "NetWaitMined 0xABCD \<in> set (fst (main ex_lib ex_world_partitioned ex_flags))"
    by (simp add: main_def ex_main_flags md')
  have dial': "Dial ex_world_partitioned (rpcURL ex_flags) = Inr ex_client_partitioned"
    by (simp add: ex_world_partitioned_def)
  have never: "\<forall>t. isl (TransactionReceipt ex_client_partitioned t 0xABCD)"
    by (simp add: ex_client_partitioned_def)
  from wait_has_no_deadline [OF ev dial] poll early
  have "snd (main ex_lib ex_world ex_flags) = Returned" by blast
  moreover from wait_has_no_deadline [OF ev' dial'] never
  have "snd (main ex_lib ex_world_partitioned ex_flags) = Hangs" by blast
  ultimately show ?thesis using ev dial poll early [of 0] early [of 1] early [of 2] ev' dial'
    by simp
qed

end
